theory Spec2Isabelle
  imports Main "HOL-Library.Multiset"
begin

section \<open>Python values and insertion-ordered dictionaries\<close>

text \<open>
  The mapper builds nested \<^verbatim>\<open>Dict[str, Any]\<close> values. A Python dictionary keeps its
  keys in insertion order, and the order of the section keys is what
  \<^verbatim>\<open>_order_sections\<close> is about, so a dictionary is an association list with
  distinct keys, in insertion order. The values that occur are \<^verbatim>\<open>None\<close>, strings,
  lists and dictionaries.
\<close>

datatype pyval =
    VNone
  | VStr string
  | VList "pyval list"
  | VDict "(string \<times> pyval) list"

type_synonym pydict = "(string \<times> pyval) list"

text \<open>\<^verbatim>\<open>d[k] = v\<close>: an existing key keeps its position, a new key goes last.\<close>

fun dict_set :: "(string \<times> 'v) list \<Rightarrow> string \<Rightarrow> 'v \<Rightarrow> (string \<times> 'v) list" where
  "dict_set [] k v = [(k, v)]"
| "dict_set ((k', v') # d) k v =
     (if k' = k then (k, v) # d else (k', v') # dict_set d k v)"

text \<open>\<^verbatim>\<open>d.get(k)\<close>, with \<open>None\<close> for a missing key, and \<^verbatim>\<open>k in d\<close>.\<close>

definition dict_get :: "(string \<times> 'v) list \<Rightarrow> string \<Rightarrow> 'v option" where
  "dict_get d k = map_of d k"

definition dict_keys :: "(string \<times> 'v) list \<Rightarrow> string list" where
  "dict_keys d = map fst d"

definition dict_has :: "(string \<times> 'v) list \<Rightarrow> string \<Rightarrow> bool" where
  "dict_has d k = (k \<in> set (dict_keys d))"

text \<open>The dictionary that \<^verbatim>\<open>d.pop(k)\<close> leaves behind (the popped value is \<open>dict_get d k\<close>).\<close>

fun dict_pop :: "(string \<times> 'v) list \<Rightarrow> string \<Rightarrow> (string \<times> 'v) list" where
  "dict_pop [] k = []"
| "dict_pop ((k', v') # d) k = (if k' = k then d else (k', v') # dict_pop d k)"

section \<open>The profile and the selection plan\<close>

text \<open>
  The mapper reads these attributes of the profile and of the plan. Required fields are
  strings. The optional fields are the ones handed to \<^verbatim>\<open>_set_if_present\<close>, whose
  parameter is \<^verbatim>\<open>value: Any\<close>: they are kept as Python values, \<open>VNone\<close> when absent.
  An entry identifier is \<^verbatim>\<open>Optional[str]\<close> (the annotation of
  \<^verbatim>\<open>_resolve_highlights\<close>), highlight lists are \<^verbatim>\<open>List[str]\<close>.
\<close>

record social =
  network :: string
  username :: string

record meta =
  name :: string
  headline :: pyval
  location :: pyval
  email :: pyval
  phone :: pyval
  website :: pyval
  socials :: "social list option"

record experience =
  exp_id :: "string option"
  company :: string
  position :: string
  exp_location :: pyval
  exp_date :: pyval
  exp_start_date :: pyval
  exp_end_date :: pyval
  exp_summary :: pyval
  exp_highlights :: "string list"

record education =
  edu_id :: "string option"
  institution :: string
  area :: string
  degree :: pyval
  edu_location :: pyval
  edu_date :: pyval
  edu_start_date :: pyval
  edu_end_date :: pyval
  edu_summary :: pyval
  edu_highlights :: "string list"

record project =
  proj_id :: "string option"
  proj_name :: string
  proj_summary :: pyval
  proj_location :: pyval
  proj_date :: pyval
  proj_start_date :: pyval
  proj_end_date :: pyval
  proj_highlights :: "string list"

record skill =
  label :: string
  details :: string

record profile =
  profile_meta :: meta
  experience :: "experience list"
  education :: "education list"
  projects :: "project list"
  skills :: "skill list"

record plan =
  selected_experience_ids :: "string list"
  selected_education_ids :: "string list"
  selected_project_ids :: "string list"
  selected_skill_labels :: "string list"
  bullet_overrides :: "(string \<times> string list) list"
  section_order :: "string list"

section \<open>The mapper\<close>

text \<open>
  \<^verbatim>\<open>_set_if_present\<close>: nothing is written for \<^verbatim>\<open>None\<close> and for an empty list;
  every other value is stored under the key.
\<close>

fun set_if_present :: "pydict \<Rightarrow> string \<Rightarrow> pyval \<Rightarrow> pydict" where
  "set_if_present target key VNone = target"
| "set_if_present target key (VList []) = target"
| "set_if_present target key v = dict_set target key v"

text \<open>
  \<^verbatim>\<open>_select_items\<close>: an empty selection returns every item; otherwise the items whose
  \<^verbatim>\<open>id\<close> is in the set of selected identifiers, a list comprehension over the items.
  An identifier that is \<^verbatim>\<open>None\<close> is in no set of strings.
\<close>

definition id_in :: "string option \<Rightarrow> string list \<Rightarrow> bool" where
  "id_in i selected = (case i of None \<Rightarrow> False | Some s \<Rightarrow> s \<in> set selected)"

definition select_items :: "('a \<Rightarrow> string option) \<Rightarrow> 'a list \<Rightarrow> string list \<Rightarrow> 'a list" where
  "select_items get_id items selected_ids =
     (if selected_ids = [] then items
      else filter (\<lambda>item. id_in (get_id item) selected_ids) items)"

text \<open>
  \<^verbatim>\<open>_resolve_highlights\<close>: \<^verbatim>\<open>if entry_id and entry_id in plan.bullet_overrides\<close>
  takes the override list; \<^verbatim>\<open>None\<close> and the empty string are both falsy.
\<close>

definition resolve_highlights :: "string option \<Rightarrow> string list \<Rightarrow> plan \<Rightarrow> string list" where
  "resolve_highlights entry_id highlights pl =
     (case entry_id of
        None \<Rightarrow> highlights
      | Some i \<Rightarrow>
          if i = [] then highlights
          else (case dict_get (bullet_overrides pl) i of
                  None \<Rightarrow> highlights
                | Some override \<Rightarrow> override))"

text \<open>
  The tail shared by the three entry loops:
  \<^verbatim>\<open>if highlights: item["highlights"] = highlights\<close>.
\<close>

definition put_highlights :: "pydict \<Rightarrow> string list \<Rightarrow> pydict" where
  "put_highlights item highlights =
     (if highlights \<noteq> [] then dict_set item ''highlights'' (VList (map VStr highlights))
      else item)"

text \<open>The body of the loop of \<^verbatim>\<open>_map_experience\<close>: the dictionary built for one entry.\<close>

definition experience_item :: "plan \<Rightarrow> experience \<Rightarrow> pydict" where
  "experience_item pl exp =
     (let item = [(''company'', VStr (company exp)), (''position'', VStr (position exp))];
          item = set_if_present item ''location'' (exp_location exp);
          item = set_if_present item ''date'' (exp_date exp);
          item = set_if_present item ''start_date'' (exp_start_date exp);
          item = set_if_present item ''end_date'' (exp_end_date exp);
          item = set_if_present item ''summary'' (exp_summary exp);
          highlights = resolve_highlights (exp_id exp) (exp_highlights exp) pl
      in put_highlights item highlights)"

definition education_item :: "plan \<Rightarrow> education \<Rightarrow> pydict" where
  "education_item pl edu =
     (let item = [(''institution'', VStr (institution edu)), (''area'', VStr (area edu))];
          item = set_if_present item ''degree'' (degree edu);
          item = set_if_present item ''location'' (edu_location edu);
          item = set_if_present item ''date'' (edu_date edu);
          item = set_if_present item ''start_date'' (edu_start_date edu);
          item = set_if_present item ''end_date'' (edu_end_date edu);
          item = set_if_present item ''summary'' (edu_summary edu);
          highlights = resolve_highlights (edu_id edu) (edu_highlights edu) pl
      in put_highlights item highlights)"

definition project_item :: "plan \<Rightarrow> project \<Rightarrow> pydict" where
  "project_item pl proj =
     (let item = [(''name'', VStr (proj_name proj))];
          item = set_if_present item ''summary'' (proj_summary proj);
          item = set_if_present item ''location'' (proj_location proj);
          item = set_if_present item ''date'' (proj_date proj);
          item = set_if_present item ''start_date'' (proj_start_date proj);
          item = set_if_present item ''end_date'' (proj_end_date proj);
          highlights = resolve_highlights (proj_id proj) (proj_highlights proj) pl
      in put_highlights item highlights)"

definition skill_item :: "skill \<Rightarrow> pydict" where
  "skill_item s = [(''label'', VStr (label s)), (''details'', VStr (details s))]"

text \<open>
  The loops \<^verbatim>\<open>for x in entries: ...; mapped.append(item)\<close>, with the list
  \<^verbatim>\<open>mapped\<close> as accumulator.
\<close>

fun append_items :: "('a \<Rightarrow> pydict) \<Rightarrow> 'a list \<Rightarrow> pyval list \<Rightarrow> pyval list" where
  "append_items body [] mapped = mapped"
| "append_items body (x # xs) mapped = append_items body xs (mapped @ [VDict (body x)])"

definition map_experience :: "profile \<Rightarrow> plan \<Rightarrow> pyval list" where
  "map_experience p pl =
     (let entries = select_items exp_id (experience p) (selected_experience_ids pl)
      in append_items (experience_item pl) entries [])"

definition map_education :: "profile \<Rightarrow> plan \<Rightarrow> pyval list" where
  "map_education p pl =
     (let entries = select_items edu_id (education p) (selected_education_ids pl)
      in append_items (education_item pl) entries [])"

definition map_projects :: "profile \<Rightarrow> plan \<Rightarrow> pyval list" where
  "map_projects p pl =
     (let entries = select_items proj_id (projects p) (selected_project_ids pl)
      in append_items (project_item pl) entries [])"

text \<open>
  \<^verbatim>\<open>_map_skills\<close> selects by label: \<^verbatim>\<open>set(plan.selected_skill_labels)\<close> is falsy
  exactly when the list of labels is empty.
\<close>

definition map_skills :: "profile \<Rightarrow> plan \<Rightarrow> pyval list" where
  "map_skills p pl =
     (let selected_labels = set (selected_skill_labels pl);
          entries = (if selected_labels \<noteq> {} then filter (\<lambda>s. label s \<in> selected_labels) (skills p)
                     else skills p)
      in append_items skill_item entries [])"

text \<open>\<^verbatim>\<open>_apply_header\<close>, on the dictionary \<^verbatim>\<open>cv\<close> that it mutates.\<close>

definition social_item :: "social \<Rightarrow> pyval" where
  "social_item s = VDict [(''network'', VStr (network s)), (''username'', VStr (username s))]"

definition apply_header :: "pydict \<Rightarrow> profile \<Rightarrow> pydict" where
  "apply_header cv p =
     (let m = profile_meta p;
          cv = dict_set cv ''name'' (VStr (name m));
          cv = set_if_present cv ''headline'' (headline m);
          cv = set_if_present cv ''location'' (location m);
          cv = set_if_present cv ''email'' (email m);
          cv = set_if_present cv ''phone'' (phone m);
          cv = set_if_present cv ''website'' (website m)
      in case socials m of
           None \<Rightarrow> cv
         | Some ss \<Rightarrow>
             if ss \<noteq> [] then dict_set cv ''social_networks'' (VList (map social_item ss))
             else cv)"

text \<open>
  \<^verbatim>\<open>_order_sections\<close>. The first loop moves the preferred titles that are still in
  \<^verbatim>\<open>remaining\<close> into \<^verbatim>\<open>ordered\<close>; the second appends what remains.
\<close>

fun take_preferred ::
  "string list \<Rightarrow> (string \<times> 'v) list \<Rightarrow> (string \<times> 'v) list
   \<Rightarrow> (string \<times> 'v) list \<times> (string \<times> 'v) list" where
  "take_preferred [] ordered remaining = (ordered, remaining)"
| "take_preferred (title # ts) ordered remaining =
     (case dict_get remaining title of
        None \<Rightarrow> take_preferred ts ordered remaining
      | Some entries \<Rightarrow>
          take_preferred ts (dict_set ordered title entries) (dict_pop remaining title))"

fun add_remaining :: "(string \<times> 'v) list \<Rightarrow> (string \<times> 'v) list \<Rightarrow> (string \<times> 'v) list" where
  "add_remaining [] ordered = ordered"
| "add_remaining ((title, entries) # rest) ordered =
     add_remaining rest (dict_set ordered title entries)"

definition order_sections :: "(string \<times> 'v) list \<Rightarrow> string list \<Rightarrow> (string \<times> 'v) list" where
  "order_sections sections preferred_order =
     (if preferred_order = [] then sections
      else (case take_preferred preferred_order [] sections of
              (ordered, remaining) \<Rightarrow> add_remaining remaining ordered))"

text \<open>\<^verbatim>\<open>build_cv_dict\<close>.\<close>

definition add_section :: "pydict \<Rightarrow> string \<Rightarrow> pyval list \<Rightarrow> pydict" where
  "add_section sections title entries =
     (if entries \<noteq> [] then dict_set sections title (VList entries) else sections)"

definition build_sections :: "profile \<Rightarrow> plan \<Rightarrow> pydict" where
  "build_sections p pl =
     (let sections = [];
          sections = add_section sections ''Experience'' (map_experience p pl);
          sections = add_section sections ''Projects'' (map_projects p pl);
          sections = add_section sections ''Education'' (map_education p pl);
          sections = add_section sections ''Skills'' (map_skills p pl)
      in sections)"

definition build_cv_dict :: "profile \<Rightarrow> plan \<Rightarrow> pydict" where
  "build_cv_dict p pl =
     (let cv = apply_header [] p;
          sections = build_sections p pl;
          ordered_sections = order_sections sections (section_order pl);
          cv = (if ordered_sections \<noteq> [] then dict_set cv ''sections'' (VDict ordered_sections)
                else cv)
      in [(''cv'', VDict cv)])"

section \<open>The document assembler\<close>

text \<open>
  \<^verbatim>\<open>assemble_rendercv_document\<close>. The three default blocks come from
  \<^verbatim>\<open>tailorcv.defaults.rendercv_defaults\<close>, which is not part of the sources at hand:
  they are a parameter. The body \<^verbatim>\<open>cv_dict\<close> is a mapping whose \<^verbatim>\<open>cv\<close> value is
  itself a mapping (the docstring calls it the RenderCV cv dictionary); \<^verbatim>\<open>dict(m)\<close> of a
  mapping is a new dictionary with the items of \<open>m\<close>, in order. Overrides are
  \<^verbatim>\<open>Mapping | None\<close>.
\<close>

record 'v defaults =
  default_design :: "(string \<times> 'v) list"
  default_locale :: "(string \<times> 'v) list"
  default_settings :: "(string \<times> 'v) list"

definition or_default :: "(string \<times> 'v) list option \<Rightarrow> (string \<times> 'v) list \<Rightarrow> (string \<times> 'v) list" where
  "or_default override dflt = (case override of Some m \<Rightarrow> m | None \<Rightarrow> dflt)"

definition assemble_rendercv_document ::
  "'v defaults \<Rightarrow> (string \<times> (string \<times> 'v) list) list \<Rightarrow>
   (string \<times> 'v) list option \<Rightarrow> (string \<times> 'v) list option \<Rightarrow> (string \<times> 'v) list option \<Rightarrow>
   (string \<times> (string \<times> 'v) list) list" where
  "assemble_rendercv_document dflt cv_dict design locale settings =
     (let document = [(''cv'', (case dict_get cv_dict ''cv'' of None \<Rightarrow> [] | Some cv \<Rightarrow> cv))];
          document = dict_set document ''design'' (or_default design (default_design dflt));
          document = dict_set document ''locale'' (or_default locale (default_locale dflt));
          document = dict_set document ''settings'' (or_default settings (default_settings dflt))
      in document)"

section \<open>Reading the result; notions used in the statements\<close>

text \<open>
  The \<^verbatim>\<open>cv\<close> dictionary of a result of \<open>build_cv_dict\<close>, its \<^verbatim>\<open>sections\<close>
  dictionary (empty when the key is missing) and the list of entries under a section title
  (empty when there is no such section).
\<close>

definition cv_of :: "pydict \<Rightarrow> pydict" where
  "cv_of out = (case dict_get out ''cv'' of Some (VDict cv) \<Rightarrow> cv | _ \<Rightarrow> [])"

definition cv_sections :: "pydict \<Rightarrow> pydict" where
  "cv_sections out = (case dict_get (cv_of out) ''sections'' of Some (VDict s) \<Rightarrow> s | _ \<Rightarrow> [])"

definition section_entries :: "pydict \<Rightarrow> string \<Rightarrow> pyval list" where
  "section_entries out title =
     (case dict_get (cv_sections out) title of Some (VList es) \<Rightarrow> es | _ \<Rightarrow> [])"

text \<open>A list without its repetitions: every element at its first position.\<close>

fun first_occurrences :: "'a list \<Rightarrow> 'a list" where
  "first_occurrences [] = []"
| "first_occurrences (x # xs) = x # filter (\<lambda>y. y \<noteq> x) (first_occurrences xs)"

text \<open>The omission rule on a value: \<^verbatim>\<open>None\<close> and the empty list are not written.\<close>

definition omitted :: "pyval \<Rightarrow> bool" where
  "omitted v \<longleftrightarrow> v = VNone \<or> v = VList []"

text \<open>
  What one optional field, the highlights and the social networks contribute to a
  dictionary in which their key is new: one item or none.
\<close>

definition opt_field :: "string \<Rightarrow> pyval \<Rightarrow> pydict" where
  "opt_field k v = (if omitted v then [] else [(k, v)])"

definition opt_highlights :: "string list \<Rightarrow> pydict" where
  "opt_highlights hs = (if hs = [] then [] else [(''highlights'', VList (map VStr hs))])"

definition opt_socials :: "social list option \<Rightarrow> pydict" where
  "opt_socials ss =
     (case ss of
        None \<Rightarrow> []
      | Some l \<Rightarrow> if l = [] then [] else [(''social_networks'', VList (map social_item l))])"

text \<open>What a category contributes to the sections: one section, or none when it is empty.\<close>

definition opt_section :: "string \<Rightarrow> pyval list \<Rightarrow> pydict" where
  "opt_section title entries = (if entries = [] then [] else [(title, VList entries)])"

section \<open>Example inputs\<close>

definition example_sections :: pydict where
  "example_sections =
     [(''Experience'', VList [VDict [(''company'', VStr ''Acme''), (''position'', VStr ''Engineer'')]]),
      (''Projects'', VList [VDict [(''name'', VStr ''Compiler'')]]),
      (''Education'', VList [VDict [(''institution'', VStr ''MIT''), (''area'', VStr ''CS'')]]),
      (''Skills'', VList [VDict [(''label'', VStr ''Languages''), (''details'', VStr ''Python'')]])]"

definition example_profile :: profile where
  "example_profile =
     \<lparr>profile_meta =
        \<lparr>name = ''Ada Lovelace'', headline = VStr ''Engineer'', location = VNone,
         email = VStr ''ada@example.org'', phone = VStr '''', website = VList [],
         socials = Some [\<lparr>network = ''GitHub'', username = ''ada''\<rparr>,
                         \<lparr>network = ''LinkedIn'', username = ''lovelace''\<rparr>]\<rparr>,
      experience =
        [\<lparr>exp_id = Some ''e1'', company = ''Acme'', position = ''Engineer'',
          exp_location = VStr ''London'', exp_date = VNone, exp_start_date = VStr ''2020-01'',
          exp_end_date = VStr ''present'', exp_summary = VStr '''',
          exp_highlights = [''a'', ''b'']\<rparr>,
         \<lparr>exp_id = Some ''e2'', company = ''Initech'', position = ''Intern'',
          exp_location = VNone, exp_date = VStr ''2019'', exp_start_date = VNone,
          exp_end_date = VNone, exp_summary = VNone, exp_highlights = []\<rparr>,
         \<lparr>exp_id = None, company = ''Globex'', position = ''Clerk'',
          exp_location = VNone, exp_date = VNone, exp_start_date = VNone,
          exp_end_date = VNone, exp_summary = VNone, exp_highlights = [''c'']\<rparr>],
      education =
        [\<lparr>edu_id = Some ''u1'', institution = ''MIT'', area = ''CS'', degree = VStr ''BS'',
          edu_location = VNone, edu_date = VNone, edu_start_date = VStr ''2015'',
          edu_end_date = VStr ''2019'', edu_summary = VNone, edu_highlights = [''d'']\<rparr>],
      projects =
        [\<lparr>proj_id = Some ''p1'', proj_name = ''Compiler'', proj_summary = VStr ''A compiler'',
          proj_location = VNone, proj_date = VNone, proj_start_date = VNone,
          proj_end_date = VNone, proj_highlights = [''e'']\<rparr>,
         \<lparr>proj_id = Some ''p2'', proj_name = ''Kernel'', proj_summary = VNone,
          proj_location = VNone, proj_date = VStr ''2021'', proj_start_date = VNone,
          proj_end_date = VNone, proj_highlights = [''f'', ''g'']\<rparr>],
      skills =
        [\<lparr>label = ''Languages'', details = ''Python''\<rparr>,
         \<lparr>label = ''Tools'', details = ''Git''\<rparr>]\<rparr>"

definition example_plan :: plan where
  "example_plan =
     \<lparr>selected_experience_ids = [''e2'', ''e1''],
      selected_education_ids = [],
      selected_project_ids = [''p2''],
      selected_skill_labels = [''Tools''],
      bullet_overrides = [(''e1'', [''x'']), (''p2'', [])],
      section_order = [''Skills'', ''Education'']\<rparr>"

text \<open>A profile with nothing but a name.\<close>

definition bare_profile :: profile where
  "bare_profile =
     \<lparr>profile_meta =
        \<lparr>name = ''Ada Lovelace'', headline = VNone, location = VNone, email = VNone,
         phone = VNone, website = VNone, socials = None\<rparr>,
      experience = [], education = [], projects = [], skills = []\<rparr>"

text \<open>A profile in which every optional field is the empty string.\<close>

definition blank_profile :: profile where
  "blank_profile =
     \<lparr>profile_meta =
        \<lparr>name = '''', headline = VStr '''', location = VStr '''', email = VStr '''',
         phone = VStr '''', website = VStr '''', socials = Some []\<rparr>,
      experience =
        [\<lparr>exp_id = Some '''', company = '''', position = '''',
          exp_location = VStr '''', exp_date = VStr '''', exp_start_date = VStr '''',
          exp_end_date = VStr '''', exp_summary = VStr '''', exp_highlights = [''a'']\<rparr>],
      education =
        [\<lparr>edu_id = None, institution = '''', area = '''', degree = VStr '''',
          edu_location = VStr '''', edu_date = VStr '''', edu_start_date = VStr '''',
          edu_end_date = VStr '''', edu_summary = VStr '''', edu_highlights = []\<rparr>],
      projects =
        [\<lparr>proj_id = Some ''p1'', proj_name = '''', proj_summary = VStr '''',
          proj_location = VStr '''', proj_date = VStr '''', proj_start_date = VStr '''',
          proj_end_date = VStr '''', proj_highlights = []\<rparr>],
      skills = [\<lparr>label = '''', details = ''''\<rparr>]\<rparr>"

text \<open>A plan that selects nothing and overrides the bullets of two identifiers.\<close>

definition override_plan :: plan where
  "override_plan =
     \<lparr>selected_experience_ids = [], selected_education_ids = [], selected_project_ids = [],
      selected_skill_labels = [],
      bullet_overrides = [('''', [''y'']), (''e1'', [''x''])],
      section_order = []\<rparr>"

definition example_defaults :: "pyval defaults" where
  "example_defaults =
     \<lparr>default_design = [(''theme'', VStr ''classic'')],
      default_locale = [(''language'', VStr ''english'')],
      default_settings = [(''bold_keywords'', VList [])]\<rparr>"

section \<open>The mapper on a store\<close>

text \<open>
  Whether a call changes the profile or the plan cannot be seen on values: the lists and
  dictionaries of Python are objects in a store, and a function that is handed a list may
  append to it. This section runs the same source on a store. A value is \<^verbatim>\<open>None\<close>, a
  string, or a reference to an object; an object is a list, a dictionary, or an instance
  with its attributes (the profile, its entries, the plan). References are indices into
  the store, and a new object goes to the end of it. A run returns a value or an exception,
  and the store it leaves behind. Every operation is defined on every value, with the
  result or the exception that Python gives: iterating goes through the elements of a list,
  the keys of a dictionary and the characters of a string; lists and dictionaries cannot
  be hashed; an instance is an object of a plain class, which has its attributes and
  nothing else: it is truthy, can be hashed, is equal to itself only, and cannot be
  iterated or subscripted. A \<^verbatim>\<open>set\<close> is built, tested for membership and dropped
  inside one function: it is kept as a value and takes no place in the store. A reference
  past the end of the store points nowhere; no Python value is like that.
\<close>

type_synonym addr = nat

datatype hval = HNone | HStr string | HRef addr

datatype hobj =
    OList "hval list"
  | ODict "(string \<times> hval) list"
  | OInst "(string \<times> hval) list"

type_synonym heap = "hobj list"

datatype error = AttributeError | TypeError | KeyError | RecursionError

type_synonym 'a run = "heap \<Rightarrow> (error + 'a) \<times> heap"

definition ret :: "'a \<Rightarrow> 'a run" where
  "ret x = (\<lambda>h. (Inr x, h))"

definition raise :: "error \<Rightarrow> 'a run" where
  "raise e = (\<lambda>h. (Inl e, h))"

definition bnd :: "'a run \<Rightarrow> ('a \<Rightarrow> 'b run) \<Rightarrow> 'b run" where
  "bnd m f = (\<lambda>h. case m h of (Inl e, h') \<Rightarrow> (Inl e, h') | (Inr x, h') \<Rightarrow> f x h')"

text \<open>A \<^verbatim>\<open>for\<close> loop over the elements of a list, in order.\<close>

fun for_each :: "('a \<Rightarrow> unit run) \<Rightarrow> 'a list \<Rightarrow> unit run" where
  "for_each body [] = ret ()"
| "for_each body (x # xs) = bnd (body x) (\<lambda>_. for_each body xs)"

fun map_run :: "('a \<Rightarrow> 'b run) \<Rightarrow> 'a list \<Rightarrow> 'b list run" where
  "map_run f [] = ret []"
| "map_run f (x # xs) = bnd (f x) (\<lambda>y. bnd (map_run f xs) (\<lambda>ys. ret (y # ys)))"

text \<open>Creating an object; reading the object behind a reference.\<close>

definition new_obj :: "hobj \<Rightarrow> hval run" where
  "new_obj obj = (\<lambda>h. (Inr (HRef (length h)), h @ [obj]))"

definition read_obj :: "hval \<Rightarrow> hobj run" where
  "read_obj v =
     (\<lambda>h. case v of
        HRef a \<Rightarrow> if a < length h then (Inr (h ! a), h) else (Inl TypeError, h)
      | _ \<Rightarrow> (Inl TypeError, h))"

text \<open>
  \<^verbatim>\<open>obj.name\<close>, for the names that the source reads: none of them is an attribute
  of \<^verbatim>\<open>None\<close>, of a string, of a list or of a dictionary.
\<close>

definition get_attr :: "hval \<Rightarrow> string \<Rightarrow> hval run" where
  "get_attr obj attr =
     (case obj of
        HRef a \<Rightarrow> bnd (read_obj obj) (\<lambda>ob. case ob of
            OInst attrs \<Rightarrow>
              (case map_of attrs attr of Some v \<Rightarrow> ret v | None \<Rightarrow> raise AttributeError)
          | _ \<Rightarrow> raise AttributeError)
      | _ \<Rightarrow> raise AttributeError)"

text \<open>
  The values that \<^verbatim>\<open>for x in l\<close>, \<^verbatim>\<open>list(l)\<close> and \<^verbatim>\<open>set(l)\<close> go through:
  the elements of a list, the keys of a dictionary, the characters of a string.
\<close>

definition list_items :: "hval \<Rightarrow> hval list run" where
  "list_items l =
     (case l of
        HNone \<Rightarrow> raise TypeError
      | HStr s \<Rightarrow> ret (map (\<lambda>c. HStr [c]) s)
      | HRef a \<Rightarrow> bnd (read_obj l) (\<lambda>ob. case ob of
            OList xs \<Rightarrow> ret xs
          | ODict items \<Rightarrow> ret (map (\<lambda>kv. HStr (fst kv)) items)
          | OInst attrs \<Rightarrow> raise TypeError))"

text \<open>\<^verbatim>\<open>d.items()\<close>: only a dictionary has the method.\<close>

definition dict_items :: "hval \<Rightarrow> (string \<times> hval) list run" where
  "dict_items d =
     (case d of
        HRef a \<Rightarrow> bnd (read_obj d) (\<lambda>ob. case ob of
            ODict items \<Rightarrow> ret items
          | _ \<Rightarrow> raise AttributeError)
      | _ \<Rightarrow> raise AttributeError)"

text \<open>\<^verbatim>\<open>hash(v)\<close>, for its exception only: a list or a dictionary cannot be hashed.\<close>

definition hashable :: "hval \<Rightarrow> unit run" where
  "hashable v =
     (case v of
        HRef a \<Rightarrow> bnd (read_obj v) (\<lambda>ob. case ob of
            OInst attrs \<Rightarrow> ret ()
          | _ \<Rightarrow> raise TypeError)
      | _ \<Rightarrow> ret ())"

text \<open>The truth value of a value: \<^verbatim>\<open>None\<close>, the empty string and empty containers are false.\<close>

definition truthy :: "hval \<Rightarrow> bool run" where
  "truthy v =
     (case v of
        HNone \<Rightarrow> ret False
      | HStr s \<Rightarrow> ret (s \<noteq> [])
      | HRef a \<Rightarrow> bnd (read_obj v) (\<lambda>ob. case ob of
            OList xs \<Rightarrow> ret (xs \<noteq> [])
          | ODict items \<Rightarrow> ret (items \<noteq> [])
          | OInst attrs \<Rightarrow> ret True))"

text \<open>
  The three statements that change an object: \<^verbatim>\<open>d[k] = v\<close>, \<^verbatim>\<open>l.append(v)\<close> and
  \<^verbatim>\<open>d.pop(k)\<close>.
\<close>

definition setitem :: "hval \<Rightarrow> string \<Rightarrow> hval \<Rightarrow> unit run" where
  "setitem d k v =
     (\<lambda>h. case d of
        HRef a \<Rightarrow>
          if a < length h then
            (case h ! a of
               ODict items \<Rightarrow> (Inr (), h[a := ODict (dict_set items k v)])
             | _ \<Rightarrow> (Inl TypeError, h))
          else (Inl TypeError, h)
      | _ \<Rightarrow> (Inl TypeError, h))"

definition append :: "hval \<Rightarrow> hval \<Rightarrow> unit run" where
  "append l v =
     (\<lambda>h. case l of
        HRef a \<Rightarrow>
          if a < length h then
            (case h ! a of
               OList xs \<Rightarrow> (Inr (), h[a := OList (xs @ [v])])
             | _ \<Rightarrow> (Inl AttributeError, h))
          else (Inl TypeError, h)
      | _ \<Rightarrow> (Inl AttributeError, h))"

definition pop :: "hval \<Rightarrow> string \<Rightarrow> hval run" where
  "pop d k =
     (\<lambda>h. case d of
        HRef a \<Rightarrow>
          if a < length h then
            (case h ! a of
               ODict items \<Rightarrow>
                 (case dict_get items k of
                    Some v \<Rightarrow> (Inr v, h[a := ODict (dict_pop items k)])
                  | None \<Rightarrow> (Inl KeyError, h))
             | OList xs \<Rightarrow> (Inl TypeError, h)
             | OInst attrs \<Rightarrow> (Inl AttributeError, h))
          else (Inl TypeError, h)
      | _ \<Rightarrow> (Inl AttributeError, h))"

text \<open>\<^verbatim>\<open>list(x)\<close>: a new list with the elements of \<open>x\<close>.\<close>

definition copy_list :: "hval \<Rightarrow> hval run" where
  "copy_list l = bnd (list_items l) (\<lambda>xs. new_obj (OList xs))"

text \<open>
  \<^verbatim>\<open>set(l)\<close> hashes each element, and so does \<^verbatim>\<open>x in s\<close> for a set \<open>s\<close>. What
  can be hashed is \<^verbatim>\<open>None\<close>, a string or an instance, and two of these are equal in
  Python exactly when they are the same value here. The set is kept as the list of its
  elements.
\<close>

definition to_set :: "hval \<Rightarrow> hval list run" where
  "to_set l = bnd (list_items l) (\<lambda>xs. bnd (for_each hashable xs) (\<lambda>_. ret xs))"

definition is_member :: "hval \<Rightarrow> hval list \<Rightarrow> bool run" where
  "is_member v selected = bnd (hashable v) (\<lambda>_. ret (v \<in> set selected))"

text \<open>
  \<^verbatim>\<open>v == w\<close>: the same value, or two lists that are equal element by element, or two
  dictionaries with as many items such that each key of the first is a key of the second
  with an equal value. \<open>None\<close> is a comparison that would not end (a list that holds
  itself): \<open>fuel\<close> bounds the depth, and a comparison that goes deeper than the
  number of pairs of objects in the store goes through one pair twice.
\<close>

fun all_eq :: "(hval \<Rightarrow> hval \<Rightarrow> bool option) \<Rightarrow> hval list \<Rightarrow> hval list \<Rightarrow> bool option" where
  "all_eq eq (x # xs) (y # ys) =
     (case eq x y of None \<Rightarrow> None | Some b \<Rightarrow> if b then all_eq eq xs ys else Some False)"
| "all_eq eq xs ys = Some True"

fun items_eq ::
  "(hval \<Rightarrow> hval \<Rightarrow> bool option) \<Rightarrow> (string \<times> hval) list \<Rightarrow> (string \<times> hval) list
   \<Rightarrow> bool option" where
  "items_eq eq [] kys = Some True"
| "items_eq eq (kx # kxs) kys =
     (case dict_get kys (fst kx) of
        None \<Rightarrow> Some False
      | Some y \<Rightarrow>
          (case eq y (snd kx) of
             None \<Rightarrow> None
           | Some b \<Rightarrow> if b then items_eq eq kxs kys else Some False))"

definition eq_step :: "(hval \<Rightarrow> hval \<Rightarrow> bool option) \<Rightarrow> heap \<Rightarrow> hval \<Rightarrow> hval \<Rightarrow> bool option" where
  "eq_step eq h v w =
     (if v = w then Some True
      else case (v, w) of
        (HRef a, HRef b) \<Rightarrow>
          if a < length h \<and> b < length h then
            (case (h ! a, h ! b) of
               (OList xs, OList ys) \<Rightarrow>
                 if length xs = length ys then all_eq eq xs ys else Some False
             | (ODict kxs, ODict kys) \<Rightarrow>
                 if length kxs = length kys then items_eq eq kxs kys else Some False
             | _ \<Rightarrow> Some False)
          else Some False
      | _ \<Rightarrow> Some False)"

primrec py_eq :: "nat \<Rightarrow> heap \<Rightarrow> hval \<Rightarrow> hval \<Rightarrow> bool option" where
  "py_eq 0 h = (\<lambda>v w. None)"
| "py_eq (Suc fuel) h = eq_step (py_eq fuel h) h"

fun any_eq :: "(hval \<Rightarrow> hval \<Rightarrow> bool option) \<Rightarrow> hval list \<Rightarrow> hval \<Rightarrow> bool option" where
  "any_eq eq [] x = Some False"
| "any_eq eq (e # es) x =
     (case eq e x of None \<Rightarrow> None | Some b \<Rightarrow> if b then Some True else any_eq eq es x)"

fun substring :: "string \<Rightarrow> string \<Rightarrow> bool" where
  "substring t [] = (t = [])"
| "substring t (c # s) = (take (length t) (c # s) = t \<or> substring t s)"

text \<open>
  \<^verbatim>\<open>x in c\<close>: a key of a dictionary (the keys are strings, and \<open>x\<close> is hashed), an
  element of a list that is equal to \<open>x\<close>, a substring of a string.
\<close>

definition contains :: "hval \<Rightarrow> hval \<Rightarrow> bool run" where
  "contains c x =
     (case c of
        HNone \<Rightarrow> raise TypeError
      | HStr s \<Rightarrow> (case x of HStr t \<Rightarrow> ret (substring t s) | _ \<Rightarrow> raise TypeError)
      | HRef a \<Rightarrow> bnd (read_obj c) (\<lambda>ob. case ob of
            ODict items \<Rightarrow>
              bnd (hashable x) (\<lambda>_. ret (case x of HStr k \<Rightarrow> dict_has items k | _ \<Rightarrow> False))
          | OList xs \<Rightarrow>
              (\<lambda>h. case any_eq (py_eq (Suc (length h * length h)) h) xs x of
                     None \<Rightarrow> (Inl RecursionError, h)
                   | Some b \<Rightarrow> (Inr b, h))
          | OInst attrs \<Rightarrow> raise TypeError))"

text \<open>
  \<^verbatim>\<open>c[x]\<close> for an \<open>x\<close> that is not a number: the value under a key of a
  dictionary; a list or a string has no such index.
\<close>

definition subscript :: "hval \<Rightarrow> hval \<Rightarrow> hval run" where
  "subscript c x =
     (case c of
        HRef a \<Rightarrow> bnd (read_obj c) (\<lambda>ob. case ob of
            ODict items \<Rightarrow>
              bnd (hashable x) (\<lambda>_.
                case x of
                  HStr k \<Rightarrow> (case dict_get items k of Some v \<Rightarrow> ret v | None \<Rightarrow> raise KeyError)
                | _ \<Rightarrow> raise KeyError)
          | _ \<Rightarrow> raise TypeError)
      | _ \<Rightarrow> raise TypeError)"

text \<open>\<^verbatim>\<open>_set_if_present\<close>.\<close>

definition st_set_if_present :: "hval \<Rightarrow> string \<Rightarrow> hval \<Rightarrow> unit run" where
  "st_set_if_present target key v =
     (case v of
        HNone \<Rightarrow> ret ()
      | HStr s \<Rightarrow> setitem target key v
      | HRef a \<Rightarrow> bnd (read_obj v) (\<lambda>ob. case ob of
            OList [] \<Rightarrow> ret ()
          | _ \<Rightarrow> setitem target key v))"

text \<open>A call \<^verbatim>\<open>_set_if_present(target, key, obj.attr)\<close>.\<close>

definition set_from_attr :: "hval \<Rightarrow> string \<Rightarrow> hval \<Rightarrow> string \<Rightarrow> unit run" where
  "set_from_attr target key obj attr = bnd (get_attr obj attr) (st_set_if_present target key)"

text \<open>
  \<^verbatim>\<open>_select_items\<close>: \<^verbatim>\<open>list(items)\<close> when the selection is empty, and otherwise the
  list that the comprehension builds.
\<close>

definition st_select_items :: "hval \<Rightarrow> hval \<Rightarrow> hval run" where
  "st_select_items items selected_ids =
     bnd (truthy selected_ids) (\<lambda>some.
       if \<not> some then copy_list items
       else
         bnd (to_set selected_ids) (\<lambda>selected.
         bnd (list_items items) (\<lambda>xs.
         bnd (new_obj (OList [])) (\<lambda>result.
         bnd (for_each (\<lambda>item.
                bnd (get_attr item ''id'') (\<lambda>i.
                bnd (is_member i selected) (\<lambda>b.
                if b then append result item else ret ()))) xs) (\<lambda>_.
         ret result)))))"

text \<open>\<^verbatim>\<open>_resolve_highlights\<close>: both branches return a new list.\<close>

definition st_resolve_highlights :: "hval \<Rightarrow> hval \<Rightarrow> hval \<Rightarrow> hval run" where
  "st_resolve_highlights entry_id highlights pl =
     bnd (truthy entry_id) (\<lambda>has_id.
       if has_id then
         bnd (get_attr pl ''bullet_overrides'') (\<lambda>overrides.
         bnd (contains overrides entry_id) (\<lambda>found.
           if found then bnd (subscript overrides entry_id) copy_list
           else copy_list highlights))
       else copy_list highlights)"

text \<open>The end of the three entry loops: the highlights, then \<^verbatim>\<open>mapped.append(item)\<close>.\<close>

definition finish_item :: "hval \<Rightarrow> hval \<Rightarrow> hval \<Rightarrow> hval \<Rightarrow> unit run" where
  "finish_item mapped item entry pl =
     bnd (get_attr entry ''id'') (\<lambda>i.
     bnd (get_attr entry ''highlights'') (\<lambda>hs.
     bnd (st_resolve_highlights i hs pl) (\<lambda>highlights.
     bnd (truthy highlights) (\<lambda>b.
     bnd (if b then setitem item ''highlights'' highlights else ret ()) (\<lambda>_.
     append mapped item)))))"

definition st_map_experience :: "hval \<Rightarrow> hval \<Rightarrow> hval run" where
  "st_map_experience p pl =
     bnd (get_attr p ''experience'') (\<lambda>items.
     bnd (get_attr pl ''selected_experience_ids'') (\<lambda>ids.
     bnd (st_select_items items ids) (\<lambda>entries.
     bnd (new_obj (OList [])) (\<lambda>mapped.
     bnd (list_items entries) (\<lambda>es.
     bnd (for_each (\<lambda>exp.
            bnd (get_attr exp ''company'') (\<lambda>c.
            bnd (get_attr exp ''position'') (\<lambda>po.
            bnd (new_obj (ODict [(''company'', c), (''position'', po)])) (\<lambda>item.
            bnd (set_from_attr item ''location'' exp ''location'') (\<lambda>_.
            bnd (set_from_attr item ''date'' exp ''date'') (\<lambda>_.
            bnd (set_from_attr item ''start_date'' exp ''start_date'') (\<lambda>_.
            bnd (set_from_attr item ''end_date'' exp ''end_date'') (\<lambda>_.
            bnd (set_from_attr item ''summary'' exp ''summary'') (\<lambda>_.
            finish_item mapped item exp pl))))))))) es) (\<lambda>_.
     ret mapped))))))"

definition st_map_education :: "hval \<Rightarrow> hval \<Rightarrow> hval run" where
  "st_map_education p pl =
     bnd (get_attr p ''education'') (\<lambda>items.
     bnd (get_attr pl ''selected_education_ids'') (\<lambda>ids.
     bnd (st_select_items items ids) (\<lambda>entries.
     bnd (new_obj (OList [])) (\<lambda>mapped.
     bnd (list_items entries) (\<lambda>es.
     bnd (for_each (\<lambda>edu.
            bnd (get_attr edu ''institution'') (\<lambda>c.
            bnd (get_attr edu ''area'') (\<lambda>ar.
            bnd (new_obj (ODict [(''institution'', c), (''area'', ar)])) (\<lambda>item.
            bnd (set_from_attr item ''degree'' edu ''degree'') (\<lambda>_.
            bnd (set_from_attr item ''location'' edu ''location'') (\<lambda>_.
            bnd (set_from_attr item ''date'' edu ''date'') (\<lambda>_.
            bnd (set_from_attr item ''start_date'' edu ''start_date'') (\<lambda>_.
            bnd (set_from_attr item ''end_date'' edu ''end_date'') (\<lambda>_.
            bnd (set_from_attr item ''summary'' edu ''summary'') (\<lambda>_.
            finish_item mapped item edu pl)))))))))) es) (\<lambda>_.
     ret mapped))))))"

definition st_map_projects :: "hval \<Rightarrow> hval \<Rightarrow> hval run" where
  "st_map_projects p pl =
     bnd (get_attr p ''projects'') (\<lambda>items.
     bnd (get_attr pl ''selected_project_ids'') (\<lambda>ids.
     bnd (st_select_items items ids) (\<lambda>entries.
     bnd (new_obj (OList [])) (\<lambda>mapped.
     bnd (list_items entries) (\<lambda>es.
     bnd (for_each (\<lambda>proj.
            bnd (get_attr proj ''name'') (\<lambda>n.
            bnd (new_obj (ODict [(''name'', n)])) (\<lambda>item.
            bnd (set_from_attr item ''summary'' proj ''summary'') (\<lambda>_.
            bnd (set_from_attr item ''location'' proj ''location'') (\<lambda>_.
            bnd (set_from_attr item ''date'' proj ''date'') (\<lambda>_.
            bnd (set_from_attr item ''start_date'' proj ''start_date'') (\<lambda>_.
            bnd (set_from_attr item ''end_date'' proj ''end_date'') (\<lambda>_.
            finish_item mapped item proj pl)))))))) es) (\<lambda>_.
     ret mapped))))))"

definition st_map_skills :: "hval \<Rightarrow> hval \<Rightarrow> hval run" where
  "st_map_skills p pl =
     bnd (get_attr pl ''selected_skill_labels'') (\<lambda>labels.
     bnd (to_set labels) (\<lambda>selected_labels.
     bnd (get_attr p ''skills'') (\<lambda>skills.
     bnd (if selected_labels \<noteq> [] then
            bnd (list_items skills) (\<lambda>xs.
            bnd (new_obj (OList [])) (\<lambda>result.
            bnd (for_each (\<lambda>s.
                   bnd (get_attr s ''label'') (\<lambda>l.
                   bnd (is_member l selected_labels) (\<lambda>b.
                   if b then append result s else ret ()))) xs) (\<lambda>_.
            ret result)))
          else copy_list skills) (\<lambda>entries.
     bnd (new_obj (OList [])) (\<lambda>mapped.
     bnd (list_items entries) (\<lambda>es.
     bnd (for_each (\<lambda>skill.
            bnd (get_attr skill ''label'') (\<lambda>l.
            bnd (get_attr skill ''details'') (\<lambda>d.
            bnd (new_obj (ODict [(''label'', l), (''details'', d)])) (\<lambda>item.
            append mapped item)))) es) (\<lambda>_.
     ret mapped)))))))"

definition st_apply_header :: "hval \<Rightarrow> hval \<Rightarrow> unit run" where
  "st_apply_header cv p =
     bnd (get_attr p ''meta'') (\<lambda>m.
     bnd (get_attr m ''name'') (\<lambda>n.
     bnd (setitem cv ''name'' n) (\<lambda>_.
     bnd (set_from_attr cv ''headline'' m ''headline'') (\<lambda>_.
     bnd (set_from_attr cv ''location'' m ''location'') (\<lambda>_.
     bnd (set_from_attr cv ''email'' m ''email'') (\<lambda>_.
     bnd (set_from_attr cv ''phone'' m ''phone'') (\<lambda>_.
     bnd (set_from_attr cv ''website'' m ''website'') (\<lambda>_.
     bnd (get_attr m ''socials'') (\<lambda>ss.
     bnd (truthy ss) (\<lambda>b.
       if b then
         bnd (list_items ss) (\<lambda>xs.
         bnd (new_obj (OList [])) (\<lambda>networks.
         bnd (for_each (\<lambda>s.
                bnd (get_attr s ''network'') (\<lambda>nw.
                bnd (get_attr s ''username'') (\<lambda>un.
                bnd (new_obj (ODict [(''network'', nw), (''username'', un)])) (\<lambda>d.
                append networks d)))) xs) (\<lambda>_.
         setitem cv ''social_networks'' networks)))
       else ret ()))))))))))"

text \<open>
  \<^verbatim>\<open>_order_sections\<close>: without a preferred order the result is the dictionary
  \<^verbatim>\<open>sections\<close> itself; otherwise \<^verbatim>\<open>ordered\<close> is a new dictionary and
  \<^verbatim>\<open>remaining\<close> a new copy of \<^verbatim>\<open>sections\<close>, and \<^verbatim>\<open>pop\<close> changes the copy.
\<close>

definition st_order_sections :: "hval \<Rightarrow> hval \<Rightarrow> hval run" where
  "st_order_sections sections preferred_order =
     bnd (truthy preferred_order) (\<lambda>some.
       if \<not> some then ret sections
       else
         bnd (new_obj (ODict [])) (\<lambda>ordered.
         bnd (dict_items sections) (\<lambda>items.
         bnd (new_obj (ODict items)) (\<lambda>remaining.
         bnd (list_items preferred_order) (\<lambda>titles.
         bnd (for_each (\<lambda>t.
                bnd (contains remaining t) (\<lambda>found.
                if found then
                  (case t of
                     HStr title \<Rightarrow> bnd (pop remaining title) (setitem ordered title)
                   | _ \<Rightarrow> raise KeyError)
                else ret ())) titles) (\<lambda>_.
         bnd (dict_items remaining) (\<lambda>r.
         bnd (for_each (\<lambda>(title, entries). setitem ordered title entries) r) (\<lambda>_.
         ret ordered))))))))"

text \<open>\<^verbatim>\<open>if entries: sections[title] = entries\<close>.\<close>

definition st_add_section :: "hval \<Rightarrow> string \<Rightarrow> hval \<Rightarrow> unit run" where
  "st_add_section sections title entries =
     bnd (truthy entries) (\<lambda>b. if b then setitem sections title entries else ret ())"

definition st_build_cv_dict :: "hval \<Rightarrow> hval \<Rightarrow> hval run" where
  "st_build_cv_dict p pl =
     bnd (new_obj (ODict [])) (\<lambda>cv.
     bnd (st_apply_header cv p) (\<lambda>_.
     bnd (new_obj (ODict [])) (\<lambda>sections.
     bnd (st_map_experience p pl) (\<lambda>experience_entries.
     bnd (st_add_section sections ''Experience'' experience_entries) (\<lambda>_.
     bnd (st_map_projects p pl) (\<lambda>project_entries.
     bnd (st_add_section sections ''Projects'' project_entries) (\<lambda>_.
     bnd (st_map_education p pl) (\<lambda>education_entries.
     bnd (st_add_section sections ''Education'' education_entries) (\<lambda>_.
     bnd (st_map_skills p pl) (\<lambda>skill_entries.
     bnd (st_add_section sections ''Skills'' skill_entries) (\<lambda>_.
     bnd (get_attr pl ''section_order'') (\<lambda>order.
     bnd (st_order_sections sections order) (\<lambda>ordered_sections.
     bnd (st_add_section cv ''sections'' ordered_sections) (\<lambda>_.
     new_obj (ODict [(''cv'', cv)])))))))))))))))"

text \<open>
  What a run may do to a store whose first \<open>n\<close> objects are there already: the store
  only grows, these \<open>n\<close> objects stay as they are, whether the run returns or raises, and
  a returned value satisfies \<open>Q\<close>. A reference is local when it points past them.
\<close>

definition local_ref :: "nat \<Rightarrow> hval \<Rightarrow> bool" where
  "local_ref n v \<longleftrightarrow> (\<exists>a. v = HRef a \<and> n \<le> a)"

definition keeps :: "nat \<Rightarrow> 'a run \<Rightarrow> ('a \<Rightarrow> bool) \<Rightarrow> bool" where
  "keeps n m Q \<longleftrightarrow>
     (\<forall>h. n \<le> length h \<longrightarrow>
        (case m h of (r, h') \<Rightarrow>
           length h \<le> length h' \<and> take n h' = take n h
           \<and> (case r of Inl e \<Rightarrow> True | Inr x \<Rightarrow> Q x)))"

text \<open>A run that only reads: it returns or raises, and the store is as it was.\<close>

definition reads :: "'a run \<Rightarrow> bool" where
  "reads m \<longleftrightarrow> (\<forall>h. snd (m h) = h)"

text \<open>
  Laying out a value, a profile and a plan in a store, each list, dictionary and instance
  as an object of its own; and reading a value back by following references, at most
  \<open>fuel\<close> levels deep (\<open>None\<close> when the fuel runs out, or at an instance or a
  reference that points nowhere).
\<close>

fun store_val :: "pyval \<Rightarrow> heap \<Rightarrow> hval \<times> heap"
  and store_vals :: "pyval list \<Rightarrow> heap \<Rightarrow> hval list \<times> heap"
  and store_items :: "(string \<times> pyval) list \<Rightarrow> heap \<Rightarrow> (string \<times> hval) list \<times> heap" where
  "store_val VNone h = (HNone, h)"
| "store_val (VStr s) h = (HStr s, h)"
| "store_val (VList vs) h =
     (case store_vals vs h of (rs, h') \<Rightarrow> (HRef (length h'), h' @ [OList rs]))"
| "store_val (VDict kvs) h =
     (case store_items kvs h of (rs, h') \<Rightarrow> (HRef (length h'), h' @ [ODict rs]))"
| "store_vals [] h = ([], h)"
| "store_vals (v # vs) h =
     (case store_val v h of (r, h') \<Rightarrow>
      case store_vals vs h' of (rs, h'') \<Rightarrow> (r # rs, h''))"
| "store_items [] h = ([], h)"
| "store_items (kv # kvs) h =
     (case store_val (snd kv) h of (r, h') \<Rightarrow>
      case store_items kvs h' of (rs, h'') \<Rightarrow> ((fst kv, r) # rs, h''))"

definition store_obj :: "hobj \<Rightarrow> heap \<Rightarrow> hval \<times> heap" where
  "store_obj obj h = (HRef (length h), h @ [obj])"

definition store_strs :: "string list \<Rightarrow> heap \<Rightarrow> hval \<times> heap" where
  "store_strs xs = store_obj (OList (map HStr xs))"

fun store_all :: "('a \<Rightarrow> heap \<Rightarrow> hval \<times> heap) \<Rightarrow> 'a list \<Rightarrow> heap \<Rightarrow> hval list \<times> heap" where
  "store_all f [] h = ([], h)"
| "store_all f (x # xs) h =
     (case f x h of (r, h') \<Rightarrow> case store_all f xs h' of (rs, h'') \<Rightarrow> (r # rs, h''))"

definition store_id :: "string option \<Rightarrow> hval" where
  "store_id i = (case i of None \<Rightarrow> HNone | Some s \<Rightarrow> HStr s)"

definition store_experience :: "experience \<Rightarrow> heap \<Rightarrow> hval \<times> heap" where
  "store_experience e h =
     (case store_vals [exp_location e, exp_date e, exp_start_date e, exp_end_date e,
                       exp_summary e] h of (rs, h1) \<Rightarrow>
      case store_strs (exp_highlights e) h1 of (hs, h2) \<Rightarrow>
      store_obj (OInst ([(''id'', store_id (exp_id e)), (''company'', HStr (company e)),
                         (''position'', HStr (position e))]
                        @ zip [''location'', ''date'', ''start_date'', ''end_date'', ''summary''] rs
                        @ [(''highlights'', hs)])) h2)"

definition store_education :: "education \<Rightarrow> heap \<Rightarrow> hval \<times> heap" where
  "store_education e h =
     (case store_vals [degree e, edu_location e, edu_date e, edu_start_date e, edu_end_date e,
                       edu_summary e] h of (rs, h1) \<Rightarrow>
      case store_strs (edu_highlights e) h1 of (hs, h2) \<Rightarrow>
      store_obj (OInst ([(''id'', store_id (edu_id e)), (''institution'', HStr (institution e)),
                         (''area'', HStr (area e))]
                        @ zip [''degree'', ''location'', ''date'', ''start_date'', ''end_date'',
                               ''summary''] rs
                        @ [(''highlights'', hs)])) h2)"

definition store_project :: "project \<Rightarrow> heap \<Rightarrow> hval \<times> heap" where
  "store_project e h =
     (case store_vals [proj_summary e, proj_location e, proj_date e, proj_start_date e,
                       proj_end_date e] h of (rs, h1) \<Rightarrow>
      case store_strs (proj_highlights e) h1 of (hs, h2) \<Rightarrow>
      store_obj (OInst ([(''id'', store_id (proj_id e)), (''name'', HStr (proj_name e))]
                        @ zip [''summary'', ''location'', ''date'', ''start_date'', ''end_date''] rs
                        @ [(''highlights'', hs)])) h2)"

definition store_skill :: "skill \<Rightarrow> heap \<Rightarrow> hval \<times> heap" where
  "store_skill s = store_obj (OInst [(''label'', HStr (label s)), (''details'', HStr (details s))])"

definition store_social :: "social \<Rightarrow> heap \<Rightarrow> hval \<times> heap" where
  "store_social s =
     store_obj (OInst [(''network'', HStr (network s)), (''username'', HStr (username s))])"

definition store_list :: "('a \<Rightarrow> heap \<Rightarrow> hval \<times> heap) \<Rightarrow> 'a list \<Rightarrow> heap \<Rightarrow> hval \<times> heap" where
  "store_list f xs h = (case store_all f xs h of (rs, h') \<Rightarrow> store_obj (OList rs) h')"

definition store_meta :: "meta \<Rightarrow> heap \<Rightarrow> hval \<times> heap" where
  "store_meta m h =
     (case store_vals [headline m, location m, email m, phone m, website m] h of (rs, h1) \<Rightarrow>
      case (case socials m of None \<Rightarrow> (HNone, h1) | Some ss \<Rightarrow> store_list store_social ss h1)
      of (ss, h2) \<Rightarrow>
      store_obj (OInst ([(''name'', HStr (name m))]
                        @ zip [''headline'', ''location'', ''email'', ''phone'', ''website''] rs
                        @ [(''socials'', ss)])) h2)"

definition store_profile :: "profile \<Rightarrow> heap \<Rightarrow> hval \<times> heap" where
  "store_profile p h =
     (case store_meta (profile_meta p) h of (m, h1) \<Rightarrow>
      case store_list store_experience (experience p) h1 of (ex, h2) \<Rightarrow>
      case store_list store_education (education p) h2 of (ed, h3) \<Rightarrow>
      case store_list store_project (projects p) h3 of (pr, h4) \<Rightarrow>
      case store_list store_skill (skills p) h4 of (sk, h5) \<Rightarrow>
      store_obj (OInst [(''meta'', m), (''experience'', ex), (''education'', ed),
                        (''projects'', pr), (''skills'', sk)]) h5)"

definition store_override :: "string \<times> string list \<Rightarrow> heap \<Rightarrow> (string \<times> hval) \<times> heap" where
  "store_override kv h = (case store_strs (snd kv) h of (r, h') \<Rightarrow> ((fst kv, r), h'))"

fun store_overrides ::
  "(string \<times> string list) list \<Rightarrow> heap \<Rightarrow> (string \<times> hval) list \<times> heap" where
  "store_overrides [] h = ([], h)"
| "store_overrides (kv # kvs) h =
     (case store_override kv h of (r, h') \<Rightarrow>
      case store_overrides kvs h' of (rs, h'') \<Rightarrow> (r # rs, h''))"

definition store_plan :: "plan \<Rightarrow> heap \<Rightarrow> hval \<times> heap" where
  "store_plan pl h =
     (case store_strs (selected_experience_ids pl) h of (xi, h1) \<Rightarrow>
      case store_strs (selected_education_ids pl) h1 of (ei, h2) \<Rightarrow>
      case store_strs (selected_project_ids pl) h2 of (pi, h3) \<Rightarrow>
      case store_strs (selected_skill_labels pl) h3 of (sl, h4) \<Rightarrow>
      case store_overrides (bullet_overrides pl) h4 of (ovs, h5) \<Rightarrow>
      case store_obj (ODict ovs) h5 of (ov, h6) \<Rightarrow>
      case store_strs (section_order pl) h6 of (so, h7) \<Rightarrow>
      store_obj (OInst [(''selected_experience_ids'', xi), (''selected_education_ids'', ei),
                        (''selected_project_ids'', pi), (''selected_skill_labels'', sl),
                        (''bullet_overrides'', ov), (''section_order'', so)]) h7)"

fun those_vals :: "'a option list \<Rightarrow> 'a list option" where
  "those_vals [] = Some []"
| "those_vals (x # xs) =
     (case x of None \<Rightarrow> None
      | Some y \<Rightarrow> (case those_vals xs of None \<Rightarrow> None | Some ys \<Rightarrow> Some (y # ys)))"

fun view :: "nat \<Rightarrow> heap \<Rightarrow> hval \<Rightarrow> pyval option" where
  "view fuel h HNone = Some VNone"
| "view fuel h (HStr s) = Some (VStr s)"
| "view 0 h (HRef a) = None"
| "view (Suc fuel) h (HRef a) =
     (if a < length h then
        (case h ! a of
           OList xs \<Rightarrow> map_option VList (those_vals (map (view fuel h) xs))
         | ODict kvs \<Rightarrow>
             map_option (\<lambda>vs. VDict (zip (map fst kvs) vs))
               (those_vals (map (\<lambda>kv. view fuel h (snd kv)) kvs))
         | OInst attrs \<Rightarrow> None)
      else None)"

text \<open>
  Two calls of \<open>st_build_cv_dict\<close> in a row on a store that holds a profile and a plan:
  the store before, the two results and the store after.
\<close>

definition twice :: "profile \<Rightarrow> plan \<Rightarrow> heap \<times> (error + hval) \<times> (error + hval) \<times> heap" where
  "twice P PL =
     (case store_profile P [] of (p, h1) \<Rightarrow>
      case store_plan PL h1 of (pl, h2) \<Rightarrow>
      case st_build_cv_dict p pl h2 of (r1, h3) \<Rightarrow>
      case st_build_cv_dict p pl h3 of (r2, h4) \<Rightarrow> (h2, r1, r2, h4))"

section \<open>Dictionaries\<close>

lemma dict_keys_simps [simp]:
  "dict_keys [] = []" "dict_keys ((k, v) # d) = k # dict_keys d"
  by (simp_all add: dict_keys_def)

lemma dict_get_simps [simp]:
  "dict_get [] k = None"
  "dict_get ((k', v) # d) k = (if k' = k then Some v else dict_get d k)"
  by (auto simp add: dict_get_def)

lemma dict_has_simps [simp]:
  "dict_has [] k = False"
  "dict_has ((k', v) # d) k = (k' = k \<or> dict_has d k)"
  by (auto simp add: dict_has_def)

lemma dict_has_iff_get: "dict_has d k \<longleftrightarrow> dict_get d k \<noteq> None"
  by (induction d) auto

lemma dict_get_None_iff: "dict_get d k = None \<longleftrightarrow> k \<notin> set (dict_keys d)"
  by (induction d) (auto split: if_splits)

lemma dict_get_Some_mem: "dict_get d k = Some v \<Longrightarrow> (k, v) \<in> set d"
  by (induction d) (auto split: if_splits)

lemma dict_set_fresh: "k \<notin> set (dict_keys d) \<Longrightarrow> dict_set d k v = d @ [(k, v)]"
  by (induction d) auto

lemma dict_keys_dict_set:
  "dict_keys (dict_set d k v) = (if k \<in> set (dict_keys d) then dict_keys d else dict_keys d @ [k])"
  by (induction d) auto

lemma dict_get_dict_set:
  "dict_get (dict_set d k v) k' = (if k' = k then Some v else dict_get d k')"
  by (induction d) auto

lemma dict_has_dict_set: "dict_has (dict_set d k v) k' \<longleftrightarrow> k' = k \<or> dict_has d k'"
  by (induction d) (auto split: if_splits)

lemma distinct_dict_set:
  "distinct (dict_keys d) \<Longrightarrow> distinct (dict_keys (dict_set d k v))"
  by (simp add: dict_keys_dict_set)

lemma dict_pop_filter:
  "distinct (dict_keys d) \<Longrightarrow> dict_pop d k = filter (\<lambda>p. fst p \<noteq> k) d"
proof (induction d)
  case Nil
  then show ?case by simp
next
  case (Cons p d)
  obtain k' v' where p: "p = (k', v')" by (cases p)
  show ?case
  proof (cases "k' = k")
    case True
    with Cons.prems p have "k \<notin> fst ` set d" by (simp add: dict_keys_def)
    then have "filter (\<lambda>p. fst p \<noteq> k) d = d"
      by (auto intro!: filter_True)
    with True p show ?thesis by simp
  next
    case False
    with Cons p show ?thesis by simp
  qed
qed

lemma append_items_map: "append_items body xs mapped = mapped @ map (\<lambda>x. VDict (body x)) xs"
  by (induction xs arbitrary: mapped) auto


lemma dict_keys_append [simp]: "dict_keys (d @ e) = dict_keys d @ dict_keys e"
  by (simp add: dict_keys_def)

lemma dict_keys_filter: "dict_keys (filter (\<lambda>p. P (fst p)) d) = filter P (dict_keys d)"
  by (induction d) (auto simp: dict_keys_def)

lemma dict_get_is_key: "dict_get d k = Some v \<Longrightarrow> k \<in> set (dict_keys d)"
  by (induction d) (auto split: if_splits)

lemma mset_dict_pop:
  "dict_get d k = Some v \<Longrightarrow> add_mset (k, v) (mset (dict_pop d k)) = mset d"
  by (induction d) (auto split: if_splits)

lemma add_remaining_append:
  "distinct (dict_keys remaining) \<Longrightarrow> set (dict_keys ordered) \<inter> set (dict_keys remaining) = {}
   \<Longrightarrow> add_remaining remaining ordered = ordered @ remaining"
proof (induction remaining arbitrary: ordered)
  case Nil
  then show ?case by simp
next
  case (Cons p rest)
  obtain k v where p: "p = (k, v)" by (cases p)
  from Cons.prems p have fresh: "k \<notin> set (dict_keys ordered)" by auto
  from Cons.prems p have "distinct (dict_keys rest)"
    and "set (dict_keys (ordered @ [(k, v)])) \<inter> set (dict_keys rest) = {}"
    by auto
  then have "add_remaining rest (ordered @ [(k, v)]) = (ordered @ [(k, v)]) @ rest"
    by (rule Cons.IH)
  with fresh p show ?case by (simp add: dict_set_fresh)
qed

lemma take_preferred_keys:
  "distinct (dict_keys remaining) \<Longrightarrow> set (dict_keys ordered) \<inter> set (dict_keys remaining) = {}
   \<Longrightarrow> take_preferred pref ordered remaining = (ordered', remaining')
   \<Longrightarrow> dict_keys ordered' =
         dict_keys ordered @ filter (\<lambda>t. t \<in> set (dict_keys remaining)) (first_occurrences pref)
       \<and> remaining' = filter (\<lambda>p. fst p \<notin> set pref) remaining
       \<and> mset ordered' + mset remaining' = mset ordered + mset remaining"
proof (induction pref arbitrary: ordered remaining)
  case Nil
  then show ?case by simp
next
  case (Cons title ts)
  show ?case
  proof (cases "dict_get remaining title")
    case None
    then have notin: "title \<notin> set (dict_keys remaining)"
      by (simp add: dict_get_None_iff)
    from None Cons.prems have "take_preferred ts ordered remaining = (ordered', remaining')"
      by simp
    from Cons.IH [OF Cons.prems(1,2) this]
    have ih: "dict_keys ordered' =
         dict_keys ordered @ filter (\<lambda>t. t \<in> set (dict_keys remaining)) (first_occurrences ts)"
      "remaining' = filter (\<lambda>p. fst p \<notin> set ts) remaining"
      "mset ordered' + mset remaining' = mset ordered + mset remaining"
      by blast+
    from notin have f1: "filter (\<lambda>t. t \<in> set (dict_keys remaining))
        (filter (\<lambda>y. y \<noteq> title) (first_occurrences ts))
      = filter (\<lambda>t. t \<in> set (dict_keys remaining)) (first_occurrences ts)"
      by (auto intro: filter_cong)
    from notin have f2: "filter (\<lambda>p. fst p \<notin> set (title # ts)) remaining
      = filter (\<lambda>p. fst p \<notin> set ts) remaining"
      by (auto intro!: filter_cong simp: dict_keys_def)
    from ih f1 f2 notin show ?thesis by simp
  next
    case (Some entries)
    then have isin: "title \<in> set (dict_keys remaining)"
      by (rule dict_get_is_key)
    with Cons.prems(2) have fresh: "title \<notin> set (dict_keys ordered)" by auto
    let ?o = "ordered @ [(title, entries)]"
    let ?r = "filter (\<lambda>p. fst p \<noteq> title) remaining"
    have pop: "dict_pop remaining title = ?r"
      using Cons.prems(1) by (rule dict_pop_filter)
    have kr: "dict_keys ?r = filter (\<lambda>k. k \<noteq> title) (dict_keys remaining)"
      by (rule dict_keys_filter)
    from Some Cons.prems(3) fresh pop
    have run: "take_preferred ts ?o ?r = (ordered', remaining')"
      by (simp add: dict_set_fresh)
    have d: "distinct (dict_keys ?r)"
      using Cons.prems(1) by (simp add: kr)
    have disj: "set (dict_keys ?o) \<inter> set (dict_keys ?r) = {}"
      using Cons.prems(2) by (auto simp: kr)
    from Cons.IH [OF d disj run]
    have ih: "dict_keys ordered' =
         dict_keys ?o @ filter (\<lambda>t. t \<in> set (dict_keys ?r)) (first_occurrences ts)"
      "remaining' = filter (\<lambda>p. fst p \<notin> set ts) ?r"
      "mset ordered' + mset remaining' = mset ?o + mset ?r"
      by blast+
    have f1: "filter (\<lambda>t. t \<in> set (dict_keys ?r)) (first_occurrences ts)
      = filter (\<lambda>t. t \<in> set (dict_keys remaining))
          (filter (\<lambda>y. y \<noteq> title) (first_occurrences ts))"
      by (auto simp: kr intro: filter_cong)
    have f2: "filter (\<lambda>p. fst p \<notin> set ts) ?r
      = filter (\<lambda>p. fst p \<notin> set (title # ts)) remaining"
      by (auto intro: filter_cong)
    have m: "mset ?o + mset ?r = mset ordered + mset remaining"
      using mset_dict_pop [OF Some] pop by simp
    from ih f1 f2 m isin show ?thesis by simp
  qed
qed


lemma set_if_present_eq:
  "set_if_present target key v = (if omitted v then target else dict_set target key v)"
  by (cases "(target, key, v)" rule: set_if_present.cases) (simp_all add: omitted_def)

lemma set_if_present_fresh:
  "key \<notin> set (dict_keys target) \<Longrightarrow> set_if_present target key v = target @ opt_field key v"
  by (simp add: set_if_present_eq opt_field_def dict_set_fresh)

lemma put_highlights_fresh:
  "''highlights'' \<notin> set (dict_keys item) \<Longrightarrow> put_highlights item hs = item @ opt_highlights hs"
  by (simp add: put_highlights_def opt_highlights_def dict_set_fresh)

lemma dict_keys_opt_field: "set (dict_keys (opt_field k v)) \<subseteq> {k}"
  by (simp add: opt_field_def)

lemma key_notin_opt_field [simp]: "k' \<noteq> k \<Longrightarrow> k' \<notin> set (dict_keys (opt_field k v))"
  by (simp add: opt_field_def)

lemma experience_item_eq:
  "experience_item pl e =
     [(''company'', VStr (company e)), (''position'', VStr (position e))]
     @ opt_field ''location'' (exp_location e)
     @ opt_field ''date'' (exp_date e)
     @ opt_field ''start_date'' (exp_start_date e)
     @ opt_field ''end_date'' (exp_end_date e)
     @ opt_field ''summary'' (exp_summary e)
     @ opt_highlights (resolve_highlights (exp_id e) (exp_highlights e) pl)"
  by (simp add: experience_item_def set_if_present_fresh put_highlights_fresh)

lemma education_item_eq:
  "education_item pl e =
     [(''institution'', VStr (institution e)), (''area'', VStr (area e))]
     @ opt_field ''degree'' (degree e)
     @ opt_field ''location'' (edu_location e)
     @ opt_field ''date'' (edu_date e)
     @ opt_field ''start_date'' (edu_start_date e)
     @ opt_field ''end_date'' (edu_end_date e)
     @ opt_field ''summary'' (edu_summary e)
     @ opt_highlights (resolve_highlights (edu_id e) (edu_highlights e) pl)"
  by (simp add: education_item_def set_if_present_fresh put_highlights_fresh)

lemma project_item_eq:
  "project_item pl e =
     [(''name'', VStr (proj_name e))]
     @ opt_field ''summary'' (proj_summary e)
     @ opt_field ''location'' (proj_location e)
     @ opt_field ''date'' (proj_date e)
     @ opt_field ''start_date'' (proj_start_date e)
     @ opt_field ''end_date'' (proj_end_date e)
     @ opt_highlights (resolve_highlights (proj_id e) (proj_highlights e) pl)"
  by (simp add: project_item_def set_if_present_fresh put_highlights_fresh)

lemma apply_header_eq:
  "apply_header [] p =
     [(''name'', VStr (name (profile_meta p)))]
     @ opt_field ''headline'' (headline (profile_meta p))
     @ opt_field ''location'' (location (profile_meta p))
     @ opt_field ''email'' (email (profile_meta p))
     @ opt_field ''phone'' (phone (profile_meta p))
     @ opt_field ''website'' (website (profile_meta p))
     @ opt_socials (socials (profile_meta p))"
  by (simp add: apply_header_def Let_def set_if_present_fresh dict_set_fresh opt_socials_def
      split: option.splits)

section \<open>Ordering the sections\<close>

lemma order_sections_eq:
  assumes d: "distinct (dict_keys sections)"
  shows "dict_keys (order_sections sections pref) =
           filter (\<lambda>t. t \<in> set (dict_keys sections)) (first_occurrences pref)
           @ filter (\<lambda>k. k \<notin> set pref) (dict_keys sections)"
    and "mset (order_sections sections pref) = mset sections"
proof -
  obtain ordered remaining where run: "take_preferred pref [] sections = (ordered, remaining)"
    by (cases "take_preferred pref [] sections")
  have e: "set (dict_keys ([] :: (string \<times> 'a) list)) \<inter> set (dict_keys sections) = {}"
    by simp
  note tp = take_preferred_keys [OF d e run]
  have k: "dict_keys ordered =
      filter (\<lambda>t. t \<in> set (dict_keys sections)) (first_occurrences pref)"
    using tp [THEN conjunct1] by simp
  have r: "remaining = filter (\<lambda>p. fst p \<notin> set pref) sections"
    by (rule tp [THEN conjunct2, THEN conjunct1])
  have m: "mset ordered + mset remaining = mset sections"
    using tp [THEN conjunct2, THEN conjunct2] by simp
  have kr: "dict_keys remaining = filter (\<lambda>k. k \<notin> set pref) (dict_keys sections)"
    unfolding r by (rule dict_keys_filter)
  have dr: "distinct (dict_keys remaining)"
    using d by (simp add: kr)
  have "set (first_occurrences pref) \<subseteq> set pref"
    by (induction pref) auto
  then have disj: "set (dict_keys ordered) \<inter> set (dict_keys remaining) = {}"
    by (auto simp: k kr)
  have app: "add_remaining remaining ordered = ordered @ remaining"
    using dr disj by (rule add_remaining_append)
  show "dict_keys (order_sections sections pref) =
           filter (\<lambda>t. t \<in> set (dict_keys sections)) (first_occurrences pref)
           @ filter (\<lambda>k. k \<notin> set pref) (dict_keys sections)"
  proof (cases "pref = []")
    case True
    then show ?thesis by (simp add: order_sections_def)
  next
    case False
    then show ?thesis by (simp add: order_sections_def run app k kr)
  qed
  show "mset (order_sections sections pref) = mset sections"
  proof (cases "pref = []")
    case True
    then show ?thesis by (simp add: order_sections_def)
  next
    case False
    then show ?thesis using m by (simp add: order_sections_def run app)
  qed
qed

lemma distinct_keys_order_sections:
  assumes "distinct (dict_keys sections)"
  shows "distinct (dict_keys (order_sections sections pref))"
proof -
  have "mset (dict_keys (order_sections sections pref)) = mset (dict_keys sections)"
    by (simp only: dict_keys_def mset_map order_sections_eq(2) [OF assms])
  then have "distinct (dict_keys (order_sections sections pref)) = distinct (dict_keys sections)"
    by (rule mset_eq_imp_distinct_iff)
  with assms show ?thesis by simp
qed

lemma dict_get_order_sections:
  assumes "distinct (dict_keys sections)"
  shows "dict_get (order_sections sections pref) k = dict_get sections k"
proof -
  have "set (order_sections sections pref) = set sections"
    using order_sections_eq(2) [OF assms] by (rule mset_eq_setD)
  moreover have "distinct (map fst (order_sections sections pref))"
    using distinct_keys_order_sections [OF assms] by (simp add: dict_keys_def)
  moreover have "distinct (map fst sections)"
    using assms by (simp add: dict_keys_def)
  ultimately have "map_of (order_sections sections pref) = map_of sections"
    by (simp add: map_of_inject_set)
  then show ?thesis by (simp add: dict_get_def)
qed

text \<open>
  Claim C5. On a dictionary of sections (distinct keys), \<open>order_sections\<close> puts first
  the preferred titles that name a section, each at its first mention and in the order of
  the preferred list, and then the sections that the list does not name, in the order they
  had. An empty preferred list returns the sections as they are. The result has the same
  items as the input: the step permutes. With the four canonical sections and the
  preference Skills, Education the titles come out as Skills, Education, Experience,
  Projects.
\<close>

theorem order_sections_permutes:
  assumes "distinct (dict_keys sections)"
  shows "dict_keys (order_sections sections preferred_order) =
           filter (\<lambda>t. t \<in> set (dict_keys sections)) (first_occurrences preferred_order)
           @ filter (\<lambda>k. k \<notin> set preferred_order) (dict_keys sections)
       \<and> order_sections sections [] = sections
       \<and> mset (order_sections sections preferred_order) = mset sections
       \<and> (dict_keys sections = [''Experience'', ''Projects'', ''Education'', ''Skills'']
            \<longrightarrow> dict_keys (order_sections sections [''Skills'', ''Education''])
                = [''Skills'', ''Education'', ''Experience'', ''Projects''])"
proof -
  have "dict_keys (order_sections sections [''Skills'', ''Education''])
                = [''Skills'', ''Education'', ''Experience'', ''Projects'']"
    if "dict_keys sections = [''Experience'', ''Projects'', ''Education'', ''Skills'']"
    by (simp only: order_sections_eq(1) [OF assms] that) simp
  moreover have "order_sections sections [] = sections"
    by (simp add: order_sections_def)
  moreover note order_sections_eq [OF assms, of preferred_order]
  ultimately show ?thesis
    by (intro conjI impI)
qed

theorem order_sections_permutes_witness:
  "distinct (dict_keys example_sections)
   \<and> dict_keys (order_sections example_sections [''Skills'', ''Education''])
       = [''Skills'', ''Education'', ''Experience'', ''Projects'']
   \<and> dict_keys (order_sections example_sections [''Awards'', ''Skills'', ''Skills''])
       = [''Skills'', ''Experience'', ''Projects'', ''Education'']
   \<and> mset (order_sections example_sections [''Skills'', ''Education'']) = mset example_sections"
proof -
  have d: "distinct (dict_keys example_sections)"
    by (simp add: example_sections_def)
  have k: "dict_keys example_sections = [''Experience'', ''Projects'', ''Education'', ''Skills'']"
    by (simp add: example_sections_def)
  from order_sections_permutes [OF d, of "[''Skills'', ''Education'']"]
    order_sections_permutes [OF d, of "[''Awards'', ''Skills'', ''Skills'']"] d k
  show ?thesis by simp
qed

section \<open>Selection\<close>

lemma select_items_eq:
  "select_items get_id items ids =
     (if ids = [] then items else filter (\<lambda>x. get_id x \<in> Some ` set ids) items)"
  by (auto simp: select_items_def id_in_def split: option.splits intro!: filter_cong)

lemma map_experience_eq:
  "map_experience p pl = map (\<lambda>e. VDict (experience_item pl e))
     (if selected_experience_ids pl = [] then experience p
      else filter (\<lambda>e. exp_id e \<in> Some ` set (selected_experience_ids pl)) (experience p))"
  by (simp add: map_experience_def append_items_map select_items_eq)

lemma map_education_eq:
  "map_education p pl = map (\<lambda>e. VDict (education_item pl e))
     (if selected_education_ids pl = [] then education p
      else filter (\<lambda>e. edu_id e \<in> Some ` set (selected_education_ids pl)) (education p))"
  by (simp add: map_education_def append_items_map select_items_eq)

lemma map_projects_eq:
  "map_projects p pl = map (\<lambda>e. VDict (project_item pl e))
     (if selected_project_ids pl = [] then projects p
      else filter (\<lambda>e. proj_id e \<in> Some ` set (selected_project_ids pl)) (projects p))"
  by (simp add: map_projects_def append_items_map select_items_eq)

lemma map_skills_eq:
  "map_skills p pl = map (\<lambda>s. VDict (skill_item s))
     (if selected_skill_labels pl = [] then skills p
      else filter (\<lambda>s. label s \<in> set (selected_skill_labels pl)) (skills p))"
  by (simp add: map_skills_def append_items_map)

section \<open>The sections of the result\<close>

lemma key_notin_opt_section [simp]: "k' \<noteq> k \<Longrightarrow> k' \<notin> set (dict_keys (opt_section k es))"
  by (simp add: opt_section_def)

lemma add_section_fresh:
  "title \<notin> set (dict_keys sections) \<Longrightarrow>
     add_section sections title entries = sections @ opt_section title entries"
  by (simp add: add_section_def opt_section_def dict_set_fresh)

lemma build_sections_eq:
  "build_sections p pl =
     opt_section ''Experience'' (map_experience p pl)
     @ opt_section ''Projects'' (map_projects p pl)
     @ opt_section ''Education'' (map_education p pl)
     @ opt_section ''Skills'' (map_skills p pl)"
  by (simp add: build_sections_def add_section_fresh)

lemma distinct_build_sections: "distinct (dict_keys (build_sections p pl))"
  by (simp add: build_sections_eq opt_section_def)

lemma dict_get_append:
  "dict_get (d @ e) k = (case dict_get d k of None \<Rightarrow> dict_get e k | Some v \<Rightarrow> Some v)"
  by (induction d) auto

lemma dict_get_opt_section:
  "dict_get (opt_section t es) k = (if k = t \<and> es \<noteq> [] then Some (VList es) else None)"
  by (simp add: opt_section_def)

lemma dict_get_opt_field:
  "dict_get (opt_field f v) k = (if k = f \<and> \<not> omitted v then Some v else None)"
  by (simp add: opt_field_def)

lemma dict_get_opt_highlights:
  "dict_get (opt_highlights hs) k =
     (if k = ''highlights'' \<and> hs \<noteq> [] then Some (VList (map VStr hs)) else None)"
  by (simp add: opt_highlights_def)

lemma dict_get_opt_socials:
  "dict_get (opt_socials ss) k =
     (case ss of None \<Rightarrow> None
      | Some l \<Rightarrow> if k = ''social_networks'' \<and> l \<noteq> [] then Some (VList (map social_item l)) else None)"
  by (simp add: opt_socials_def split: option.splits)

lemma sections_notin_header: "''sections'' \<notin> set (dict_keys (apply_header [] p))"
  by (simp add: apply_header_eq opt_socials_def split: option.splits)

lemma cv_of_build:
  "cv_of (build_cv_dict p pl) =
     apply_header [] p
     @ (if order_sections (build_sections p pl) (section_order pl) = [] then []
        else [(''sections'', VDict (order_sections (build_sections p pl) (section_order pl)))])"
  by (simp add: build_cv_dict_def cv_of_def Let_def dict_set_fresh sections_notin_header)

lemma cv_sections_build:
  "cv_sections (build_cv_dict p pl) = order_sections (build_sections p pl) (section_order pl)"
  using sections_notin_header [of p]
  by (simp add: cv_sections_def cv_of_build dict_get_append dict_get_None_iff [symmetric])

lemma section_entries_build:
  "section_entries (build_cv_dict p pl) title =
     (case dict_get (build_sections p pl) title of Some (VList es) \<Rightarrow> es | _ \<Rightarrow> [])"
  by (simp add: section_entries_def cv_sections_build
      dict_get_order_sections [OF distinct_build_sections])

lemma dict_get_build_sections:
  "dict_get (build_sections p pl) t =
     (if t = ''Experience'' \<and> map_experience p pl \<noteq> [] then Some (VList (map_experience p pl))
      else if t = ''Projects'' \<and> map_projects p pl \<noteq> [] then Some (VList (map_projects p pl))
      else if t = ''Education'' \<and> map_education p pl \<noteq> [] then Some (VList (map_education p pl))
      else if t = ''Skills'' \<and> map_skills p pl \<noteq> [] then Some (VList (map_skills p pl))
      else None)"
  by (simp add: build_sections_eq dict_get_append dict_get_opt_section)

lemma section_entries_canonical:
  "section_entries (build_cv_dict p pl) ''Experience'' = map_experience p pl"
  "section_entries (build_cv_dict p pl) ''Projects'' = map_projects p pl"
  "section_entries (build_cv_dict p pl) ''Education'' = map_education p pl"
  "section_entries (build_cv_dict p pl) ''Skills'' = map_skills p pl"
  by (simp_all add: section_entries_build dict_get_build_sections)

text \<open>
  Claim C1. Whatever the section order, the entries that \<open>build_cv_dict\<close> puts under
  Experience, Education and Projects are the mapped entries of the profile, all of them and
  in the profile's order when the plan's list of selected identifiers for the category is
  empty, and otherwise exactly those whose identifier is one of the selected ones, still
  in the profile's order. Skills follow the same policy with the label as key.
\<close>

theorem selection_policy:
  "section_entries (build_cv_dict p pl) ''Experience'' =
     map (\<lambda>e. VDict (experience_item pl e))
       (if selected_experience_ids pl = [] then experience p
        else filter (\<lambda>e. exp_id e \<in> Some ` set (selected_experience_ids pl)) (experience p))
   \<and> section_entries (build_cv_dict p pl) ''Education'' =
     map (\<lambda>e. VDict (education_item pl e))
       (if selected_education_ids pl = [] then education p
        else filter (\<lambda>e. edu_id e \<in> Some ` set (selected_education_ids pl)) (education p))
   \<and> section_entries (build_cv_dict p pl) ''Projects'' =
     map (\<lambda>e. VDict (project_item pl e))
       (if selected_project_ids pl = [] then projects p
        else filter (\<lambda>e. proj_id e \<in> Some ` set (selected_project_ids pl)) (projects p))
   \<and> section_entries (build_cv_dict p pl) ''Skills'' =
     map (\<lambda>s. VDict [(''label'', VStr (label s)), (''details'', VStr (details s))])
       (if selected_skill_labels pl = [] then skills p
        else filter (\<lambda>s. label s \<in> set (selected_skill_labels pl)) (skills p))"
  unfolding section_entries_canonical
  using map_experience_eq [of p pl] map_education_eq [of p pl] map_projects_eq [of p pl]
    map_skills_eq [of p pl]
  by (simp only: skill_item_def simp_thms)

lemma dict_has_cv_sections:
  "dict_has (cv_sections (build_cv_dict p pl)) t \<longleftrightarrow> dict_get (build_sections p pl) t \<noteq> None"
  by (simp add: cv_sections_build dict_has_iff_get
      dict_get_order_sections [OF distinct_build_sections])

text \<open>
  Claim C4. A title is a key of the sections of the result exactly when the section has
  at least one entry, and only the four canonical titles occur; a category is present
  exactly when its mapped list is non-empty. A profile without skills has no Skills
  section, whatever labels the plan selects.
\<close>

theorem empty_sections_omitted:
  "(\<forall>t. dict_has (cv_sections (build_cv_dict p pl)) t
          \<longleftrightarrow> section_entries (build_cv_dict p pl) t \<noteq> [])
   \<and> (\<forall>t. dict_has (cv_sections (build_cv_dict p pl)) t
          \<longrightarrow> t \<in> {''Experience'', ''Projects'', ''Education'', ''Skills''})
   \<and> (dict_has (cv_sections (build_cv_dict p pl)) ''Experience'' \<longleftrightarrow> map_experience p pl \<noteq> [])
   \<and> (dict_has (cv_sections (build_cv_dict p pl)) ''Projects'' \<longleftrightarrow> map_projects p pl \<noteq> [])
   \<and> (dict_has (cv_sections (build_cv_dict p pl)) ''Education'' \<longleftrightarrow> map_education p pl \<noteq> [])
   \<and> (dict_has (cv_sections (build_cv_dict p pl)) ''Skills'' \<longleftrightarrow> map_skills p pl \<noteq> [])
   \<and> (skills p = [] \<longrightarrow> \<not> dict_has (cv_sections (build_cv_dict p pl)) ''Skills'')"
proof -
  have a: "dict_has (cv_sections (build_cv_dict p pl)) t
          \<longleftrightarrow> section_entries (build_cv_dict p pl) t \<noteq> []" for t
    by (simp add: dict_has_cv_sections section_entries_build dict_get_build_sections)
  have b: "t \<in> {''Experience'', ''Projects'', ''Education'', ''Skills''}"
    if "dict_has (cv_sections (build_cv_dict p pl)) t" for t
    using that by (simp add: dict_has_cv_sections dict_get_build_sections split: if_splits)
  have c: "dict_has (cv_sections (build_cv_dict p pl)) ''Experience'' \<longleftrightarrow> map_experience p pl \<noteq> []"
    "dict_has (cv_sections (build_cv_dict p pl)) ''Projects'' \<longleftrightarrow> map_projects p pl \<noteq> []"
    "dict_has (cv_sections (build_cv_dict p pl)) ''Education'' \<longleftrightarrow> map_education p pl \<noteq> []"
    "dict_has (cv_sections (build_cv_dict p pl)) ''Skills'' \<longleftrightarrow> map_skills p pl \<noteq> []"
    by (simp_all add: dict_has_cv_sections dict_get_build_sections)
  have d: "\<not> dict_has (cv_sections (build_cv_dict p pl)) ''Skills''" if "skills p = []"
    using that by (simp add: c map_skills_eq)
  from a b c d show ?thesis by blast
qed

text \<open>
  Claim C10. The result of \<open>build_cv_dict\<close> has the single key cv, bound to a
  dictionary; that dictionary has the key name, bound to the profile's name; when
  no category has a mapped entry it has no key sections; and when it has the key, the
  sections under it are not empty.
\<close>

theorem build_cv_dict_shape:
  "dict_keys (build_cv_dict p pl) = [''cv'']
   \<and> build_cv_dict p pl = [(''cv'', VDict (cv_of (build_cv_dict p pl)))]
   \<and> dict_get (cv_of (build_cv_dict p pl)) ''name'' = Some (VStr (name (profile_meta p)))
   \<and> (map_experience p pl = [] \<and> map_projects p pl = [] \<and> map_education p pl = []
        \<and> map_skills p pl = []
       \<longrightarrow> \<not> dict_has (cv_of (build_cv_dict p pl)) ''sections'')
   \<and> (dict_has (cv_of (build_cv_dict p pl)) ''sections''
       \<longrightarrow> dict_get (cv_of (build_cv_dict p pl)) ''sections''
             = Some (VDict (cv_sections (build_cv_dict p pl)))
           \<and> cv_sections (build_cv_dict p pl) \<noteq> [])"
proof -
  let ?os = "order_sections (build_sections p pl) (section_order pl)"
  have k: "dict_keys (build_cv_dict p pl) = [''cv'']"
    by (simp add: build_cv_dict_def Let_def)
  have s: "build_cv_dict p pl = [(''cv'', VDict (cv_of (build_cv_dict p pl)))]"
    by (simp add: build_cv_dict_def cv_of_def Let_def)
  have n: "dict_get (cv_of (build_cv_dict p pl)) ''name'' = Some (VStr (name (profile_meta p)))"
    by (simp add: cv_of_build apply_header_eq)
  have h: "dict_get (cv_of (build_cv_dict p pl)) ''sections''
      = (if ?os = [] then None else Some (VDict ?os))"
    using sections_notin_header [of p]
    by (simp add: cv_of_build dict_get_append dict_get_None_iff [symmetric])
  have "mset ?os = mset (build_sections p pl)"
    using distinct_build_sections by (rule order_sections_eq(2))
  then have e: "?os = [] \<longleftrightarrow> build_sections p pl = []"
    by (metis mset_zero_iff)
  have z: "build_sections p pl = []"
    if "map_experience p pl = [] \<and> map_projects p pl = [] \<and> map_education p pl = []
        \<and> map_skills p pl = []"
    using that by (simp add: build_sections_eq opt_section_def)
  from k s n h e z show ?thesis
    by (simp add: dict_has_iff_get cv_sections_build)
qed

section \<open>Entries and header\<close>

lemma dict_has_append [simp]: "dict_has (d @ e) k \<longleftrightarrow> dict_has d k \<or> dict_has e k"
  by (auto simp: dict_has_def)

lemma dict_has_opt_field [simp]: "dict_has (opt_field f v) k \<longleftrightarrow> k = f \<and> \<not> omitted v"
  by (auto simp: opt_field_def)

lemma dict_has_opt_highlights [simp]:
  "dict_has (opt_highlights hs) k \<longleftrightarrow> k = ''highlights'' \<and> hs \<noteq> []"
  by (auto simp: opt_highlights_def)

lemma dict_has_opt_socials [simp]:
  "dict_has (opt_socials ss) k \<longleftrightarrow> k = ''social_networks'' \<and> (\<exists>l. ss = Some l \<and> l \<noteq> [])"
  by (auto simp: opt_socials_def split: option.splits)

lemma set_opt_field: "set (opt_field f v) = (if omitted v then {} else {(f, v)})"
  by (simp add: opt_field_def)

lemma set_opt_highlights:
  "set (opt_highlights hs) = (if hs = [] then {} else {(''highlights'', VList (map VStr hs))})"
  by (simp add: opt_highlights_def)


lemma not_omitted_simps [simp]:
  "\<not> omitted (VStr s)" "\<not> omitted (VDict d)" "omitted VNone" "omitted (VList l) \<longleftrightarrow> l = []"
  by (simp_all add: omitted_def)

lemma resolve_highlights_cases:
  "i \<noteq> [] \<Longrightarrow> dict_get (bullet_overrides pl) i = Some ov \<Longrightarrow>
     resolve_highlights (Some i) hs pl = ov"
  "resolve_highlights None hs pl = hs"
  "resolve_highlights (Some []) hs pl = hs"
  "\<not> dict_has (bullet_overrides pl) i \<Longrightarrow> resolve_highlights (Some i) hs pl = hs"
  by (simp_all add: resolve_highlights_def dict_has_iff_get)

lemma resolve_highlights_own:
  "entry_id = None \<or> entry_id = Some []
     \<or> (\<exists>i. entry_id = Some i \<and> \<not> dict_has (bullet_overrides pl) i) \<Longrightarrow>
   resolve_highlights entry_id hs pl = hs"
  by (auto simp: resolve_highlights_cases)

lemma item_highlights:
  "dict_get (experience_item pl exp) ''highlights'' =
     (if resolve_highlights (exp_id exp) (exp_highlights exp) pl = [] then None
      else Some (VList (map VStr (resolve_highlights (exp_id exp) (exp_highlights exp) pl))))"
  "dict_get (education_item pl edu) ''highlights'' =
     (if resolve_highlights (edu_id edu) (edu_highlights edu) pl = [] then None
      else Some (VList (map VStr (resolve_highlights (edu_id edu) (edu_highlights edu) pl))))"
  "dict_get (project_item pl proj) ''highlights'' =
     (if resolve_highlights (proj_id proj) (proj_highlights proj) pl = [] then None
      else Some (VList (map VStr (resolve_highlights (proj_id proj) (proj_highlights proj) pl))))"
  by (simp_all add: experience_item_eq education_item_eq project_item_eq dict_get_append
      dict_get_opt_field dict_get_opt_highlights)

lemma experience_item_fields:
  "(k, v) \<in> set (experience_item pl exp) \<and> k \<noteq> ''highlights'' \<longrightarrow>
     (k, v) \<in> set [(''company'', VStr (company exp)), (''position'', VStr (position exp)),
                   (''location'', exp_location exp), (''date'', exp_date exp),
                   (''start_date'', exp_start_date exp), (''end_date'', exp_end_date exp),
                   (''summary'', exp_summary exp)]"
  by (auto simp: experience_item_eq set_opt_field set_opt_highlights split: if_splits)

lemma education_item_fields:
  "(k, v) \<in> set (education_item pl edu) \<and> k \<noteq> ''highlights'' \<longrightarrow>
     (k, v) \<in> set [(''institution'', VStr (institution edu)), (''area'', VStr (area edu)),
                   (''degree'', degree edu), (''location'', edu_location edu),
                   (''date'', edu_date edu), (''start_date'', edu_start_date edu),
                   (''end_date'', edu_end_date edu), (''summary'', edu_summary edu)]"
  by (auto simp: education_item_eq set_opt_field set_opt_highlights split: if_splits)

lemma project_item_fields:
  "(k, v) \<in> set (project_item pl proj) \<and> k \<noteq> ''highlights'' \<longrightarrow>
     (k, v) \<in> set [(''name'', VStr (proj_name proj)), (''summary'', proj_summary proj),
                   (''location'', proj_location proj), (''date'', proj_date proj),
                   (''start_date'', proj_start_date proj), (''end_date'', proj_end_date proj)]"
  by (auto simp: project_item_eq set_opt_field set_opt_highlights split: if_splits)

text \<open>The entries of a section of the result, one for each selected entry, in order.\<close>

lemma entries_of_sections:
  "section_entries (build_cv_dict p pl) ''Experience'' =
     map (\<lambda>e. VDict (experience_item pl e))
       (if selected_experience_ids pl = [] then experience p
        else filter (\<lambda>e. exp_id e \<in> Some ` set (selected_experience_ids pl)) (experience p))"
  "section_entries (build_cv_dict p pl) ''Education'' =
     map (\<lambda>e. VDict (education_item pl e))
       (if selected_education_ids pl = [] then education p
        else filter (\<lambda>e. edu_id e \<in> Some ` set (selected_education_ids pl)) (education p))"
  "section_entries (build_cv_dict p pl) ''Projects'' =
     map (\<lambda>e. VDict (project_item pl e))
       (if selected_project_ids pl = [] then projects p
        else filter (\<lambda>e. proj_id e \<in> Some ` set (selected_project_ids pl)) (projects p))"
  unfolding section_entries_canonical
  by (rule map_experience_eq map_education_eq map_projects_eq)+

lemma experience_entries_highlights:
  "length (map (\<lambda>e. VDict (experience_item pl e)) sel) = length sel
   \<and> (\<forall>n<length sel. \<exists>item.
         (map (\<lambda>e. VDict (experience_item pl e)) sel) ! n = VDict item
         \<and> (\<forall>i ov. exp_id (sel ! n) = Some i \<and> i \<noteq> []
                \<and> dict_get (bullet_overrides pl) i = Some ov \<longrightarrow>
              dict_get item ''highlights'' =
                (if ov = [] then None else Some (VList (map VStr ov))))
         \<and> (exp_id (sel ! n) = None \<or> exp_id (sel ! n) = Some []
              \<or> (\<exists>i. exp_id (sel ! n) = Some i \<and> \<not> dict_has (bullet_overrides pl) i) \<longrightarrow>
              dict_get item ''highlights'' =
                (if exp_highlights (sel ! n) = [] then None
                 else Some (VList (map VStr (exp_highlights (sel ! n))))))
         \<and> (\<forall>k v. (k, v) \<in> set item \<and> k \<noteq> ''highlights'' \<longrightarrow>
              (k, v) \<in> set [(''company'', VStr (company (sel ! n))),
                            (''position'', VStr (position (sel ! n))),
                            (''location'', exp_location (sel ! n)),
                            (''date'', exp_date (sel ! n)),
                            (''start_date'', exp_start_date (sel ! n)),
                            (''end_date'', exp_end_date (sel ! n)),
                            (''summary'', exp_summary (sel ! n))]))"
proof (intro conjI allI impI)
  show "length (map (\<lambda>e. VDict (experience_item pl e)) sel) = length sel" by simp
next
  fix n assume n: "n < length sel"
  define e where "e = sel ! n"
  have a: "(map (\<lambda>e. VDict (experience_item pl e)) sel) ! n = VDict (experience_item pl e)"
    using n by (simp add: e_def)
  have b: "\<forall>i ov. exp_id e = Some i \<and> i \<noteq> [] \<and> dict_get (bullet_overrides pl) i = Some ov \<longrightarrow>
      dict_get (experience_item pl e) ''highlights'' =
        (if ov = [] then None else Some (VList (map VStr ov)))"
    by (simp add: item_highlights resolve_highlights_cases)
  have c: "exp_id e = None \<or> exp_id e = Some []
      \<or> (\<exists>i. exp_id e = Some i \<and> \<not> dict_has (bullet_overrides pl) i) \<longrightarrow>
      dict_get (experience_item pl e) ''highlights'' =
        (if exp_highlights e = [] then None else Some (VList (map VStr (exp_highlights e))))"
  proof
    assume "exp_id e = None \<or> exp_id e = Some []
      \<or> (\<exists>i. exp_id e = Some i \<and> \<not> dict_has (bullet_overrides pl) i)"
    then have "resolve_highlights (exp_id e) (exp_highlights e) pl = exp_highlights e"
      by (rule resolve_highlights_own)
    then show "dict_get (experience_item pl e) ''highlights'' =
        (if exp_highlights e = [] then None else Some (VList (map VStr (exp_highlights e))))"
      by (simp add: item_highlights)
  qed
  have d: "\<forall>k v. (k, v) \<in> set (experience_item pl e) \<and> k \<noteq> ''highlights'' \<longrightarrow>
      (k, v) \<in> set [(''company'', VStr (company e)),
                    (''position'', VStr (position e)),
                    (''location'', exp_location e),
                    (''date'', exp_date e),
                    (''start_date'', exp_start_date e),
                    (''end_date'', exp_end_date e),
                    (''summary'', exp_summary e)]"
    by (intro allI) (rule experience_item_fields)
  from a b c d show "\<exists>item.
         (map (\<lambda>e. VDict (experience_item pl e)) sel) ! n = VDict item
         \<and> (\<forall>i ov. exp_id (sel ! n) = Some i \<and> i \<noteq> []
                \<and> dict_get (bullet_overrides pl) i = Some ov \<longrightarrow>
              dict_get item ''highlights'' =
                (if ov = [] then None else Some (VList (map VStr ov))))
         \<and> (exp_id (sel ! n) = None \<or> exp_id (sel ! n) = Some []
              \<or> (\<exists>i. exp_id (sel ! n) = Some i \<and> \<not> dict_has (bullet_overrides pl) i) \<longrightarrow>
              dict_get item ''highlights'' =
                (if exp_highlights (sel ! n) = [] then None
                 else Some (VList (map VStr (exp_highlights (sel ! n))))))
         \<and> (\<forall>k v. (k, v) \<in> set item \<and> k \<noteq> ''highlights'' \<longrightarrow>
              (k, v) \<in> set [(''company'', VStr (company (sel ! n))),
                            (''position'', VStr (position (sel ! n))),
                            (''location'', exp_location (sel ! n)),
                            (''date'', exp_date (sel ! n)),
                            (''start_date'', exp_start_date (sel ! n)),
                            (''end_date'', exp_end_date (sel ! n)),
                            (''summary'', exp_summary (sel ! n))])"
    unfolding e_def by (intro exI [of _ "experience_item pl (sel ! n)"] conjI)
qed

lemma education_entries_highlights:
  "length (map (\<lambda>e. VDict (education_item pl e)) sel) = length sel
   \<and> (\<forall>n<length sel. \<exists>item.
         (map (\<lambda>e. VDict (education_item pl e)) sel) ! n = VDict item
         \<and> (\<forall>i ov. edu_id (sel ! n) = Some i \<and> i \<noteq> []
                \<and> dict_get (bullet_overrides pl) i = Some ov \<longrightarrow>
              dict_get item ''highlights'' =
                (if ov = [] then None else Some (VList (map VStr ov))))
         \<and> (edu_id (sel ! n) = None \<or> edu_id (sel ! n) = Some []
              \<or> (\<exists>i. edu_id (sel ! n) = Some i \<and> \<not> dict_has (bullet_overrides pl) i) \<longrightarrow>
              dict_get item ''highlights'' =
                (if edu_highlights (sel ! n) = [] then None
                 else Some (VList (map VStr (edu_highlights (sel ! n))))))
         \<and> (\<forall>k v. (k, v) \<in> set item \<and> k \<noteq> ''highlights'' \<longrightarrow>
              (k, v) \<in> set [(''institution'', VStr (institution (sel ! n))),
                            (''area'', VStr (area (sel ! n))),
                            (''degree'', degree (sel ! n)),
                            (''location'', edu_location (sel ! n)),
                            (''date'', edu_date (sel ! n)),
                            (''start_date'', edu_start_date (sel ! n)),
                            (''end_date'', edu_end_date (sel ! n)),
                            (''summary'', edu_summary (sel ! n))]))"
proof (intro conjI allI impI)
  show "length (map (\<lambda>e. VDict (education_item pl e)) sel) = length sel" by simp
next
  fix n assume n: "n < length sel"
  define e where "e = sel ! n"
  have a: "(map (\<lambda>e. VDict (education_item pl e)) sel) ! n = VDict (education_item pl e)"
    using n by (simp add: e_def)
  have b: "\<forall>i ov. edu_id e = Some i \<and> i \<noteq> [] \<and> dict_get (bullet_overrides pl) i = Some ov \<longrightarrow>
      dict_get (education_item pl e) ''highlights'' =
        (if ov = [] then None else Some (VList (map VStr ov)))"
    by (simp add: item_highlights resolve_highlights_cases)
  have c: "edu_id e = None \<or> edu_id e = Some []
      \<or> (\<exists>i. edu_id e = Some i \<and> \<not> dict_has (bullet_overrides pl) i) \<longrightarrow>
      dict_get (education_item pl e) ''highlights'' =
        (if edu_highlights e = [] then None else Some (VList (map VStr (edu_highlights e))))"
  proof
    assume "edu_id e = None \<or> edu_id e = Some []
      \<or> (\<exists>i. edu_id e = Some i \<and> \<not> dict_has (bullet_overrides pl) i)"
    then have "resolve_highlights (edu_id e) (edu_highlights e) pl = edu_highlights e"
      by (rule resolve_highlights_own)
    then show "dict_get (education_item pl e) ''highlights'' =
        (if edu_highlights e = [] then None else Some (VList (map VStr (edu_highlights e))))"
      by (simp add: item_highlights)
  qed
  have d: "\<forall>k v. (k, v) \<in> set (education_item pl e) \<and> k \<noteq> ''highlights'' \<longrightarrow>
      (k, v) \<in> set [(''institution'', VStr (institution e)),
                    (''area'', VStr (area e)),
                    (''degree'', degree e),
                    (''location'', edu_location e),
                    (''date'', edu_date e),
                    (''start_date'', edu_start_date e),
                    (''end_date'', edu_end_date e),
                    (''summary'', edu_summary e)]"
    by (intro allI) (rule education_item_fields)
  from a b c d show "\<exists>item.
         (map (\<lambda>e. VDict (education_item pl e)) sel) ! n = VDict item
         \<and> (\<forall>i ov. edu_id (sel ! n) = Some i \<and> i \<noteq> []
                \<and> dict_get (bullet_overrides pl) i = Some ov \<longrightarrow>
              dict_get item ''highlights'' =
                (if ov = [] then None else Some (VList (map VStr ov))))
         \<and> (edu_id (sel ! n) = None \<or> edu_id (sel ! n) = Some []
              \<or> (\<exists>i. edu_id (sel ! n) = Some i \<and> \<not> dict_has (bullet_overrides pl) i) \<longrightarrow>
              dict_get item ''highlights'' =
                (if edu_highlights (sel ! n) = [] then None
                 else Some (VList (map VStr (edu_highlights (sel ! n))))))
         \<and> (\<forall>k v. (k, v) \<in> set item \<and> k \<noteq> ''highlights'' \<longrightarrow>
              (k, v) \<in> set [(''institution'', VStr (institution (sel ! n))),
                            (''area'', VStr (area (sel ! n))),
                            (''degree'', degree (sel ! n)),
                            (''location'', edu_location (sel ! n)),
                            (''date'', edu_date (sel ! n)),
                            (''start_date'', edu_start_date (sel ! n)),
                            (''end_date'', edu_end_date (sel ! n)),
                            (''summary'', edu_summary (sel ! n))])"
    unfolding e_def by (intro exI [of _ "education_item pl (sel ! n)"] conjI)
qed

lemma project_entries_highlights:
  "length (map (\<lambda>e. VDict (project_item pl e)) sel) = length sel
   \<and> (\<forall>n<length sel. \<exists>item.
         (map (\<lambda>e. VDict (project_item pl e)) sel) ! n = VDict item
         \<and> (\<forall>i ov. proj_id (sel ! n) = Some i \<and> i \<noteq> []
                \<and> dict_get (bullet_overrides pl) i = Some ov \<longrightarrow>
              dict_get item ''highlights'' =
                (if ov = [] then None else Some (VList (map VStr ov))))
         \<and> (proj_id (sel ! n) = None \<or> proj_id (sel ! n) = Some []
              \<or> (\<exists>i. proj_id (sel ! n) = Some i \<and> \<not> dict_has (bullet_overrides pl) i) \<longrightarrow>
              dict_get item ''highlights'' =
                (if proj_highlights (sel ! n) = [] then None
                 else Some (VList (map VStr (proj_highlights (sel ! n))))))
         \<and> (\<forall>k v. (k, v) \<in> set item \<and> k \<noteq> ''highlights'' \<longrightarrow>
              (k, v) \<in> set [(''name'', VStr (proj_name (sel ! n))),
                            (''summary'', proj_summary (sel ! n)),
                            (''location'', proj_location (sel ! n)),
                            (''date'', proj_date (sel ! n)),
                            (''start_date'', proj_start_date (sel ! n)),
                            (''end_date'', proj_end_date (sel ! n))]))"
proof (intro conjI allI impI)
  show "length (map (\<lambda>e. VDict (project_item pl e)) sel) = length sel" by simp
next
  fix n assume n: "n < length sel"
  define e where "e = sel ! n"
  have a: "(map (\<lambda>e. VDict (project_item pl e)) sel) ! n = VDict (project_item pl e)"
    using n by (simp add: e_def)
  have b: "\<forall>i ov. proj_id e = Some i \<and> i \<noteq> [] \<and> dict_get (bullet_overrides pl) i = Some ov \<longrightarrow>
      dict_get (project_item pl e) ''highlights'' =
        (if ov = [] then None else Some (VList (map VStr ov)))"
    by (simp add: item_highlights resolve_highlights_cases)
  have c: "proj_id e = None \<or> proj_id e = Some []
      \<or> (\<exists>i. proj_id e = Some i \<and> \<not> dict_has (bullet_overrides pl) i) \<longrightarrow>
      dict_get (project_item pl e) ''highlights'' =
        (if proj_highlights e = [] then None else Some (VList (map VStr (proj_highlights e))))"
  proof
    assume "proj_id e = None \<or> proj_id e = Some []
      \<or> (\<exists>i. proj_id e = Some i \<and> \<not> dict_has (bullet_overrides pl) i)"
    then have "resolve_highlights (proj_id e) (proj_highlights e) pl = proj_highlights e"
      by (rule resolve_highlights_own)
    then show "dict_get (project_item pl e) ''highlights'' =
        (if proj_highlights e = [] then None else Some (VList (map VStr (proj_highlights e))))"
      by (simp add: item_highlights)
  qed
  have d: "\<forall>k v. (k, v) \<in> set (project_item pl e) \<and> k \<noteq> ''highlights'' \<longrightarrow>
      (k, v) \<in> set [(''name'', VStr (proj_name e)),
                    (''summary'', proj_summary e),
                    (''location'', proj_location e),
                    (''date'', proj_date e),
                    (''start_date'', proj_start_date e),
                    (''end_date'', proj_end_date e)]"
    by (intro allI) (rule project_item_fields)
  from a b c d show "\<exists>item.
         (map (\<lambda>e. VDict (project_item pl e)) sel) ! n = VDict item
         \<and> (\<forall>i ov. proj_id (sel ! n) = Some i \<and> i \<noteq> []
                \<and> dict_get (bullet_overrides pl) i = Some ov \<longrightarrow>
              dict_get item ''highlights'' =
                (if ov = [] then None else Some (VList (map VStr ov))))
         \<and> (proj_id (sel ! n) = None \<or> proj_id (sel ! n) = Some []
              \<or> (\<exists>i. proj_id (sel ! n) = Some i \<and> \<not> dict_has (bullet_overrides pl) i) \<longrightarrow>
              dict_get item ''highlights'' =
                (if proj_highlights (sel ! n) = [] then None
                 else Some (VList (map VStr (proj_highlights (sel ! n))))))
         \<and> (\<forall>k v. (k, v) \<in> set item \<and> k \<noteq> ''highlights'' \<longrightarrow>
              (k, v) \<in> set [(''name'', VStr (proj_name (sel ! n))),
                            (''summary'', proj_summary (sel ! n)),
                            (''location'', proj_location (sel ! n)),
                            (''date'', proj_date (sel ! n)),
                            (''start_date'', proj_start_date (sel ! n)),
                            (''end_date'', proj_end_date (sel ! n))])"
    unfolding e_def by (intro exI [of _ "project_item pl (sel ! n)"] conjI)
qed

text \<open>
  Claim C2. When the identifier of an entry is a non-empty string that is a key of the
  plan's bullet overrides, the resolved highlights are the override list, whatever the
  entry's own highlights are; an entry without identifier, or with the empty string as
  identifier, keeps its own highlights, and so does an entry whose identifier is not a key
  of the overrides. The mapped entry carries the resolved list under the key highlights
  (and no such key when the list is empty). Every other item of a mapped entry is a field
  of the profile's entry under its own key, and the items other than the highlights do not
  depend on the plan.

  In the result of \<open>build_cv_dict\<close>: the sections Experience, Education and Projects
  have one entry for each selected entry of the profile, in the profile's order (every entry
  when the plan's list of selected identifiers is empty, and otherwise the entries whose
  identifier is in that list). The entry at position \<open>n\<close> is a dictionary; its value
  under highlights is the override list when the identifier of the \<open>n\<close>-th selected
  entry is a non-empty key of the overrides, and the selected entry's own list when the
  identifier is missing, empty, or not a key of the overrides (no key highlights for an
  empty list); each of its other items is a field of the \<open>n\<close>-th selected entry.
\<close>

theorem highlights_override:
  "(entry_id = Some i \<and> i \<noteq> [] \<and> dict_get (bullet_overrides pl) i = Some override
      \<longrightarrow> resolve_highlights entry_id hs pl = override)
   \<and> (entry_id = None \<or> entry_id = Some [] \<longrightarrow> resolve_highlights entry_id hs pl = hs)
   \<and> (entry_id = Some i \<and> \<not> dict_has (bullet_overrides pl) i
        \<longrightarrow> resolve_highlights entry_id hs pl = hs)
   \<and> dict_get (experience_item pl exp) ''highlights'' =
        (if resolve_highlights (exp_id exp) (exp_highlights exp) pl = [] then None
         else Some (VList (map VStr (resolve_highlights (exp_id exp) (exp_highlights exp) pl))))
   \<and> dict_get (education_item pl edu) ''highlights'' =
        (if resolve_highlights (edu_id edu) (edu_highlights edu) pl = [] then None
         else Some (VList (map VStr (resolve_highlights (edu_id edu) (edu_highlights edu) pl))))
   \<and> dict_get (project_item pl proj) ''highlights'' =
        (if resolve_highlights (proj_id proj) (proj_highlights proj) pl = [] then None
         else Some (VList (map VStr (resolve_highlights (proj_id proj) (proj_highlights proj) pl))))
   \<and> (\<forall>k v. (k, v) \<in> set (experience_item pl exp) \<and> k \<noteq> ''highlights'' \<longrightarrow>
         (k, v) \<in> set [(''company'', VStr (company exp)), (''position'', VStr (position exp)),
                       (''location'', exp_location exp), (''date'', exp_date exp),
                       (''start_date'', exp_start_date exp), (''end_date'', exp_end_date exp),
                       (''summary'', exp_summary exp)])
   \<and> (\<forall>k v. (k, v) \<in> set (education_item pl edu) \<and> k \<noteq> ''highlights'' \<longrightarrow>
         (k, v) \<in> set [(''institution'', VStr (institution edu)), (''area'', VStr (area edu)),
                       (''degree'', degree edu), (''location'', edu_location edu),
                       (''date'', edu_date edu), (''start_date'', edu_start_date edu),
                       (''end_date'', edu_end_date edu), (''summary'', edu_summary edu)])
   \<and> (\<forall>k v. (k, v) \<in> set (project_item pl proj) \<and> k \<noteq> ''highlights'' \<longrightarrow>
         (k, v) \<in> set [(''name'', VStr (proj_name proj)), (''summary'', proj_summary proj),
                       (''location'', proj_location proj), (''date'', proj_date proj),
                       (''start_date'', proj_start_date proj), (''end_date'', proj_end_date proj)])
   \<and> filter (\<lambda>x. fst x \<noteq> ''highlights'') (experience_item pl exp)
       = filter (\<lambda>x. fst x \<noteq> ''highlights'') (experience_item pl' exp)
   \<and> filter (\<lambda>x. fst x \<noteq> ''highlights'') (education_item pl edu)
       = filter (\<lambda>x. fst x \<noteq> ''highlights'') (education_item pl' edu)
   \<and> filter (\<lambda>x. fst x \<noteq> ''highlights'') (project_item pl proj)
       = filter (\<lambda>x. fst x \<noteq> ''highlights'') (project_item pl' proj)
   \<and> (let sel = (if selected_experience_ids pl = [] then experience p
            else filter (\<lambda>e. exp_id e \<in> Some ` set (selected_experience_ids pl)) (experience p))
        in length (section_entries (build_cv_dict p pl) ''Experience'') = length sel
   \<and> (\<forall>n<length sel. \<exists>item.
         (section_entries (build_cv_dict p pl) ''Experience'') ! n = VDict item
         \<and> (\<forall>i ov. exp_id (sel ! n) = Some i \<and> i \<noteq> []
                \<and> dict_get (bullet_overrides pl) i = Some ov \<longrightarrow>
              dict_get item ''highlights'' =
                (if ov = [] then None else Some (VList (map VStr ov))))
         \<and> (exp_id (sel ! n) = None \<or> exp_id (sel ! n) = Some []
              \<or> (\<exists>i. exp_id (sel ! n) = Some i \<and> \<not> dict_has (bullet_overrides pl) i) \<longrightarrow>
              dict_get item ''highlights'' =
                (if exp_highlights (sel ! n) = [] then None
                 else Some (VList (map VStr (exp_highlights (sel ! n))))))
         \<and> (\<forall>k v. (k, v) \<in> set item \<and> k \<noteq> ''highlights'' \<longrightarrow>
              (k, v) \<in> set [(''company'', VStr (company (sel ! n))),
                            (''position'', VStr (position (sel ! n))),
                            (''location'', exp_location (sel ! n)),
                            (''date'', exp_date (sel ! n)),
                            (''start_date'', exp_start_date (sel ! n)),
                            (''end_date'', exp_end_date (sel ! n)),
                            (''summary'', exp_summary (sel ! n))])))
   \<and> (let sel = (if selected_education_ids pl = [] then education p
            else filter (\<lambda>e. edu_id e \<in> Some ` set (selected_education_ids pl)) (education p))
        in length (section_entries (build_cv_dict p pl) ''Education'') = length sel
   \<and> (\<forall>n<length sel. \<exists>item.
         (section_entries (build_cv_dict p pl) ''Education'') ! n = VDict item
         \<and> (\<forall>i ov. edu_id (sel ! n) = Some i \<and> i \<noteq> []
                \<and> dict_get (bullet_overrides pl) i = Some ov \<longrightarrow>
              dict_get item ''highlights'' =
                (if ov = [] then None else Some (VList (map VStr ov))))
         \<and> (edu_id (sel ! n) = None \<or> edu_id (sel ! n) = Some []
              \<or> (\<exists>i. edu_id (sel ! n) = Some i \<and> \<not> dict_has (bullet_overrides pl) i) \<longrightarrow>
              dict_get item ''highlights'' =
                (if edu_highlights (sel ! n) = [] then None
                 else Some (VList (map VStr (edu_highlights (sel ! n))))))
         \<and> (\<forall>k v. (k, v) \<in> set item \<and> k \<noteq> ''highlights'' \<longrightarrow>
              (k, v) \<in> set [(''institution'', VStr (institution (sel ! n))),
                            (''area'', VStr (area (sel ! n))),
                            (''degree'', degree (sel ! n)),
                            (''location'', edu_location (sel ! n)),
                            (''date'', edu_date (sel ! n)),
                            (''start_date'', edu_start_date (sel ! n)),
                            (''end_date'', edu_end_date (sel ! n)),
                            (''summary'', edu_summary (sel ! n))])))
   \<and> (let sel = (if selected_project_ids pl = [] then projects p
            else filter (\<lambda>e. proj_id e \<in> Some ` set (selected_project_ids pl)) (projects p))
        in length (section_entries (build_cv_dict p pl) ''Projects'') = length sel
   \<and> (\<forall>n<length sel. \<exists>item.
         (section_entries (build_cv_dict p pl) ''Projects'') ! n = VDict item
         \<and> (\<forall>i ov. proj_id (sel ! n) = Some i \<and> i \<noteq> []
                \<and> dict_get (bullet_overrides pl) i = Some ov \<longrightarrow>
              dict_get item ''highlights'' =
                (if ov = [] then None else Some (VList (map VStr ov))))
         \<and> (proj_id (sel ! n) = None \<or> proj_id (sel ! n) = Some []
              \<or> (\<exists>i. proj_id (sel ! n) = Some i \<and> \<not> dict_has (bullet_overrides pl) i) \<longrightarrow>
              dict_get item ''highlights'' =
                (if proj_highlights (sel ! n) = [] then None
                 else Some (VList (map VStr (proj_highlights (sel ! n))))))
         \<and> (\<forall>k v. (k, v) \<in> set item \<and> k \<noteq> ''highlights'' \<longrightarrow>
              (k, v) \<in> set [(''name'', VStr (proj_name (sel ! n))),
                            (''summary'', proj_summary (sel ! n)),
                            (''location'', proj_location (sel ! n)),
                            (''date'', proj_date (sel ! n)),
                            (''start_date'', proj_start_date (sel ! n)),
                            (''end_date'', proj_end_date (sel ! n))])))"
proof -
  have r1: "entry_id = Some i \<and> i \<noteq> [] \<and> dict_get (bullet_overrides pl) i = Some override
      \<longrightarrow> resolve_highlights entry_id hs pl = override"
    by (simp add: resolve_highlights_def)
  have r2: "entry_id = None \<or> entry_id = Some [] \<longrightarrow> resolve_highlights entry_id hs pl = hs"
    by (auto simp: resolve_highlights_def)
  have r3: "entry_id = Some i \<and> \<not> dict_has (bullet_overrides pl) i
        \<longrightarrow> resolve_highlights entry_id hs pl = hs"
    by (simp add: resolve_highlights_def dict_has_iff_get)
  have h1: "dict_get (experience_item pl exp) ''highlights'' =
        (if resolve_highlights (exp_id exp) (exp_highlights exp) pl = [] then None
         else Some (VList (map VStr (resolve_highlights (exp_id exp) (exp_highlights exp) pl))))"
    by (simp add: experience_item_eq dict_get_append dict_get_opt_field dict_get_opt_highlights)
  have h2: "dict_get (education_item pl edu) ''highlights'' =
        (if resolve_highlights (edu_id edu) (edu_highlights edu) pl = [] then None
         else Some (VList (map VStr (resolve_highlights (edu_id edu) (edu_highlights edu) pl))))"
    by (simp add: education_item_eq dict_get_append dict_get_opt_field dict_get_opt_highlights)
  have h3: "dict_get (project_item pl proj) ''highlights'' =
        (if resolve_highlights (proj_id proj) (proj_highlights proj) pl = [] then None
         else Some (VList (map VStr (resolve_highlights (proj_id proj) (proj_highlights proj) pl))))"
    by (simp add: project_item_eq dict_get_append dict_get_opt_field dict_get_opt_highlights)
  have f1: "\<forall>k v. (k, v) \<in> set (experience_item pl exp) \<and> k \<noteq> ''highlights'' \<longrightarrow>
         (k, v) \<in> set [(''company'', VStr (company exp)), (''position'', VStr (position exp)),
                       (''location'', exp_location exp), (''date'', exp_date exp),
                       (''start_date'', exp_start_date exp), (''end_date'', exp_end_date exp),
                       (''summary'', exp_summary exp)]"
    by (auto simp: experience_item_eq set_opt_field set_opt_highlights split: if_splits)
  have f2: "\<forall>k v. (k, v) \<in> set (education_item pl edu) \<and> k \<noteq> ''highlights'' \<longrightarrow>
         (k, v) \<in> set [(''institution'', VStr (institution edu)), (''area'', VStr (area edu)),
                       (''degree'', degree edu), (''location'', edu_location edu),
                       (''date'', edu_date edu), (''start_date'', edu_start_date edu),
                       (''end_date'', edu_end_date edu), (''summary'', edu_summary edu)]"
    by (auto simp: education_item_eq set_opt_field set_opt_highlights split: if_splits)
  have f3: "\<forall>k v. (k, v) \<in> set (project_item pl proj) \<and> k \<noteq> ''highlights'' \<longrightarrow>
         (k, v) \<in> set [(''name'', VStr (proj_name proj)), (''summary'', proj_summary proj),
                       (''location'', proj_location proj), (''date'', proj_date proj),
                       (''start_date'', proj_start_date proj), (''end_date'', proj_end_date proj)]"
    by (auto simp: project_item_eq set_opt_field set_opt_highlights split: if_splits)
  have g1: "filter (\<lambda>x. fst x \<noteq> ''highlights'') (experience_item pl exp)
       = filter (\<lambda>x. fst x \<noteq> ''highlights'') (experience_item pl' exp)"
    by (simp add: experience_item_eq opt_highlights_def)
  have g2: "filter (\<lambda>x. fst x \<noteq> ''highlights'') (education_item pl edu)
       = filter (\<lambda>x. fst x \<noteq> ''highlights'') (education_item pl' edu)"
    by (simp add: education_item_eq opt_highlights_def)
  have g3: "filter (\<lambda>x. fst x \<noteq> ''highlights'') (project_item pl proj)
       = filter (\<lambda>x. fst x \<noteq> ''highlights'') (project_item pl' proj)"
    by (simp add: project_item_eq opt_highlights_def)
  have o1: "(let sel = (if selected_experience_ids pl = [] then experience p
            else filter (\<lambda>e. exp_id e \<in> Some ` set (selected_experience_ids pl)) (experience p))
        in length (section_entries (build_cv_dict p pl) ''Experience'') = length sel
   \<and> (\<forall>n<length sel. \<exists>item.
         (section_entries (build_cv_dict p pl) ''Experience'') ! n = VDict item
         \<and> (\<forall>i ov. exp_id (sel ! n) = Some i \<and> i \<noteq> []
                \<and> dict_get (bullet_overrides pl) i = Some ov \<longrightarrow>
              dict_get item ''highlights'' =
                (if ov = [] then None else Some (VList (map VStr ov))))
         \<and> (exp_id (sel ! n) = None \<or> exp_id (sel ! n) = Some []
              \<or> (\<exists>i. exp_id (sel ! n) = Some i \<and> \<not> dict_has (bullet_overrides pl) i) \<longrightarrow>
              dict_get item ''highlights'' =
                (if exp_highlights (sel ! n) = [] then None
                 else Some (VList (map VStr (exp_highlights (sel ! n))))))
         \<and> (\<forall>k v. (k, v) \<in> set item \<and> k \<noteq> ''highlights'' \<longrightarrow>
              (k, v) \<in> set [(''company'', VStr (company (sel ! n))),
                            (''position'', VStr (position (sel ! n))),
                            (''location'', exp_location (sel ! n)),
                            (''date'', exp_date (sel ! n)),
                            (''start_date'', exp_start_date (sel ! n)),
                            (''end_date'', exp_end_date (sel ! n)),
                            (''summary'', exp_summary (sel ! n))])))"
    unfolding Let_def entries_of_sections(1) by (rule experience_entries_highlights)
  have o2: "(let sel = (if selected_education_ids pl = [] then education p
            else filter (\<lambda>e. edu_id e \<in> Some ` set (selected_education_ids pl)) (education p))
        in length (section_entries (build_cv_dict p pl) ''Education'') = length sel
   \<and> (\<forall>n<length sel. \<exists>item.
         (section_entries (build_cv_dict p pl) ''Education'') ! n = VDict item
         \<and> (\<forall>i ov. edu_id (sel ! n) = Some i \<and> i \<noteq> []
                \<and> dict_get (bullet_overrides pl) i = Some ov \<longrightarrow>
              dict_get item ''highlights'' =
                (if ov = [] then None else Some (VList (map VStr ov))))
         \<and> (edu_id (sel ! n) = None \<or> edu_id (sel ! n) = Some []
              \<or> (\<exists>i. edu_id (sel ! n) = Some i \<and> \<not> dict_has (bullet_overrides pl) i) \<longrightarrow>
              dict_get item ''highlights'' =
                (if edu_highlights (sel ! n) = [] then None
                 else Some (VList (map VStr (edu_highlights (sel ! n))))))
         \<and> (\<forall>k v. (k, v) \<in> set item \<and> k \<noteq> ''highlights'' \<longrightarrow>
              (k, v) \<in> set [(''institution'', VStr (institution (sel ! n))),
                            (''area'', VStr (area (sel ! n))),
                            (''degree'', degree (sel ! n)),
                            (''location'', edu_location (sel ! n)),
                            (''date'', edu_date (sel ! n)),
                            (''start_date'', edu_start_date (sel ! n)),
                            (''end_date'', edu_end_date (sel ! n)),
                            (''summary'', edu_summary (sel ! n))])))"
    unfolding Let_def entries_of_sections(2) by (rule education_entries_highlights)
  have o3: "(let sel = (if selected_project_ids pl = [] then projects p
            else filter (\<lambda>e. proj_id e \<in> Some ` set (selected_project_ids pl)) (projects p))
        in length (section_entries (build_cv_dict p pl) ''Projects'') = length sel
   \<and> (\<forall>n<length sel. \<exists>item.
         (section_entries (build_cv_dict p pl) ''Projects'') ! n = VDict item
         \<and> (\<forall>i ov. proj_id (sel ! n) = Some i \<and> i \<noteq> []
                \<and> dict_get (bullet_overrides pl) i = Some ov \<longrightarrow>
              dict_get item ''highlights'' =
                (if ov = [] then None else Some (VList (map VStr ov))))
         \<and> (proj_id (sel ! n) = None \<or> proj_id (sel ! n) = Some []
              \<or> (\<exists>i. proj_id (sel ! n) = Some i \<and> \<not> dict_has (bullet_overrides pl) i) \<longrightarrow>
              dict_get item ''highlights'' =
                (if proj_highlights (sel ! n) = [] then None
                 else Some (VList (map VStr (proj_highlights (sel ! n))))))
         \<and> (\<forall>k v. (k, v) \<in> set item \<and> k \<noteq> ''highlights'' \<longrightarrow>
              (k, v) \<in> set [(''name'', VStr (proj_name (sel ! n))),
                            (''summary'', proj_summary (sel ! n)),
                            (''location'', proj_location (sel ! n)),
                            (''date'', proj_date (sel ! n)),
                            (''start_date'', proj_start_date (sel ! n)),
                            (''end_date'', proj_end_date (sel ! n))])))"
    unfolding Let_def entries_of_sections(3) by (rule project_entries_highlights)
  show ?thesis
    by (intro conjI r1 r2 r3 h1 h2 h3 f1 f2 f3 g1 g2 g3 o1 o2 o3)
qed











lemma dict_get_cv_of_header:
  "k \<noteq> ''sections'' \<Longrightarrow> dict_get (cv_of (build_cv_dict p pl)) k = dict_get (apply_header [] p) k"
  by (simp add: cv_of_build dict_get_append split: option.splits)


lemma header_get:
  "dict_get (apply_header [] p) ''name'' = Some (VStr (name (profile_meta p)))"
  "dict_get (apply_header [] p) ''headline'' =
     (if omitted (headline (profile_meta p)) then None else Some (headline (profile_meta p)))"
  "dict_get (apply_header [] p) ''location'' =
     (if omitted (location (profile_meta p)) then None else Some (location (profile_meta p)))"
  "dict_get (apply_header [] p) ''email'' =
     (if omitted (email (profile_meta p)) then None else Some (email (profile_meta p)))"
  "dict_get (apply_header [] p) ''phone'' =
     (if omitted (phone (profile_meta p)) then None else Some (phone (profile_meta p)))"
  "dict_get (apply_header [] p) ''website'' =
     (if omitted (website (profile_meta p)) then None else Some (website (profile_meta p)))"
  "dict_get (apply_header [] p) ''social_networks'' =
     (case socials (profile_meta p) of
        None \<Rightarrow> None
      | Some l \<Rightarrow> if l = [] then None else Some (VList (map social_item l)))"
  by (simp_all add: apply_header_eq dict_get_append dict_get_opt_field dict_get_opt_socials
      split: option.splits)

text \<open>
  Claim C8. In the cv dictionary of the result the key name holds the profile's name;
  headline, location, email, phone and website hold the profile's value unless it is
  \<^verbatim>\<open>None\<close> or the empty list, in which case the key is missing; and the key
  social\_networks holds one dictionary of network and username for each social entry of
  the profile, in the profile's order, and is missing when the profile has none.
\<close>

theorem header_mapping:
  "dict_get (cv_of (build_cv_dict p pl)) ''name'' = Some (VStr (name (profile_meta p)))
   \<and> dict_get (cv_of (build_cv_dict p pl)) ''headline'' =
       (if omitted (headline (profile_meta p)) then None else Some (headline (profile_meta p)))
   \<and> dict_get (cv_of (build_cv_dict p pl)) ''location'' =
       (if omitted (location (profile_meta p)) then None else Some (location (profile_meta p)))
   \<and> dict_get (cv_of (build_cv_dict p pl)) ''email'' =
       (if omitted (email (profile_meta p)) then None else Some (email (profile_meta p)))
   \<and> dict_get (cv_of (build_cv_dict p pl)) ''phone'' =
       (if omitted (phone (profile_meta p)) then None else Some (phone (profile_meta p)))
   \<and> dict_get (cv_of (build_cv_dict p pl)) ''website'' =
       (if omitted (website (profile_meta p)) then None else Some (website (profile_meta p)))
   \<and> dict_get (cv_of (build_cv_dict p pl)) ''social_networks'' =
       (case socials (profile_meta p) of
          None \<Rightarrow> None
        | Some l \<Rightarrow>
            if l = [] then None
            else Some (VList (map (\<lambda>s. VDict [(''network'', VStr (network s)),
                                               (''username'', VStr (username s))]) l)))"
proof -
  have "map social_item l =
      map (\<lambda>s. VDict [(''network'', VStr (network s)), (''username'', VStr (username s))]) l"
    for l by (simp add: social_item_def)
  then show ?thesis
    by (simp add: dict_get_cv_of_header header_get split: option.splits)
qed

lemma set_if_present_empty_string:
  "dict_get (set_if_present target key (VStr [])) key = Some (VStr [])"
  by (simp add: dict_get_dict_set)

lemma experience_item_get:
  "dict_get (experience_item pl e) ''location'' =
     (if omitted (exp_location e) then None else Some (exp_location e))"
  "dict_get (experience_item pl e) ''date'' =
     (if omitted (exp_date e) then None else Some (exp_date e))"
  "dict_get (experience_item pl e) ''start_date'' =
     (if omitted (exp_start_date e) then None else Some (exp_start_date e))"
  "dict_get (experience_item pl e) ''end_date'' =
     (if omitted (exp_end_date e) then None else Some (exp_end_date e))"
  "dict_get (experience_item pl e) ''summary'' =
     (if omitted (exp_summary e) then None else Some (exp_summary e))"
  by (simp_all add: experience_item_eq dict_get_append dict_get_opt_field dict_get_opt_highlights)

lemma education_item_get:
  "dict_get (education_item pl e) ''degree'' =
     (if omitted (degree e) then None else Some (degree e))"
  "dict_get (education_item pl e) ''location'' =
     (if omitted (edu_location e) then None else Some (edu_location e))"
  "dict_get (education_item pl e) ''date'' =
     (if omitted (edu_date e) then None else Some (edu_date e))"
  "dict_get (education_item pl e) ''start_date'' =
     (if omitted (edu_start_date e) then None else Some (edu_start_date e))"
  "dict_get (education_item pl e) ''end_date'' =
     (if omitted (edu_end_date e) then None else Some (edu_end_date e))"
  "dict_get (education_item pl e) ''summary'' =
     (if omitted (edu_summary e) then None else Some (edu_summary e))"
  by (simp_all add: education_item_eq dict_get_append dict_get_opt_field dict_get_opt_highlights)

lemma project_item_get:
  "dict_get (project_item pl e) ''summary'' =
     (if omitted (proj_summary e) then None else Some (proj_summary e))"
  "dict_get (project_item pl e) ''location'' =
     (if omitted (proj_location e) then None else Some (proj_location e))"
  "dict_get (project_item pl e) ''date'' =
     (if omitted (proj_date e) then None else Some (proj_date e))"
  "dict_get (project_item pl e) ''start_date'' =
     (if omitted (proj_start_date e) then None else Some (proj_start_date e))"
  "dict_get (project_item pl e) ''end_date'' =
     (if omitted (proj_end_date e) then None else Some (proj_end_date e))"
  by (simp_all add: project_item_eq dict_get_append dict_get_opt_field dict_get_opt_highlights)

lemma experience_entries_blank:
  "length (map (\<lambda>e. VDict (experience_item pl e)) sel) = length sel
   \<and> (\<forall>n<length sel. \<exists>item.
         (map (\<lambda>e. VDict (experience_item pl e)) sel) ! n = VDict item
         \<and> (exp_location (sel ! n) = VStr [] \<longrightarrow> dict_get item ''location'' = Some (VStr []))
         \<and> (exp_date (sel ! n) = VStr [] \<longrightarrow> dict_get item ''date'' = Some (VStr []))
         \<and> (exp_start_date (sel ! n) = VStr [] \<longrightarrow> dict_get item ''start_date'' = Some (VStr []))
         \<and> (exp_end_date (sel ! n) = VStr [] \<longrightarrow> dict_get item ''end_date'' = Some (VStr []))
         \<and> (exp_summary (sel ! n) = VStr [] \<longrightarrow> dict_get item ''summary'' = Some (VStr [])))"
proof (intro conjI allI impI)
  show "length (map (\<lambda>e. VDict (experience_item pl e)) sel) = length sel" by simp
next
  fix n assume n: "n < length sel"
  then show "\<exists>item.
         (map (\<lambda>e. VDict (experience_item pl e)) sel) ! n = VDict item
         \<and> (exp_location (sel ! n) = VStr [] \<longrightarrow> dict_get item ''location'' = Some (VStr []))
         \<and> (exp_date (sel ! n) = VStr [] \<longrightarrow> dict_get item ''date'' = Some (VStr []))
         \<and> (exp_start_date (sel ! n) = VStr [] \<longrightarrow> dict_get item ''start_date'' = Some (VStr []))
         \<and> (exp_end_date (sel ! n) = VStr [] \<longrightarrow> dict_get item ''end_date'' = Some (VStr []))
         \<and> (exp_summary (sel ! n) = VStr [] \<longrightarrow> dict_get item ''summary'' = Some (VStr []))"
    by (intro exI [of _ "experience_item pl (sel ! n)"]) (simp add: experience_item_get)
qed

lemma education_entries_blank:
  "length (map (\<lambda>e. VDict (education_item pl e)) sel) = length sel
   \<and> (\<forall>n<length sel. \<exists>item.
         (map (\<lambda>e. VDict (education_item pl e)) sel) ! n = VDict item
         \<and> (degree (sel ! n) = VStr [] \<longrightarrow> dict_get item ''degree'' = Some (VStr []))
         \<and> (edu_location (sel ! n) = VStr [] \<longrightarrow> dict_get item ''location'' = Some (VStr []))
         \<and> (edu_date (sel ! n) = VStr [] \<longrightarrow> dict_get item ''date'' = Some (VStr []))
         \<and> (edu_start_date (sel ! n) = VStr [] \<longrightarrow> dict_get item ''start_date'' = Some (VStr []))
         \<and> (edu_end_date (sel ! n) = VStr [] \<longrightarrow> dict_get item ''end_date'' = Some (VStr []))
         \<and> (edu_summary (sel ! n) = VStr [] \<longrightarrow> dict_get item ''summary'' = Some (VStr [])))"
proof (intro conjI allI impI)
  show "length (map (\<lambda>e. VDict (education_item pl e)) sel) = length sel" by simp
next
  fix n assume n: "n < length sel"
  then show "\<exists>item.
         (map (\<lambda>e. VDict (education_item pl e)) sel) ! n = VDict item
         \<and> (degree (sel ! n) = VStr [] \<longrightarrow> dict_get item ''degree'' = Some (VStr []))
         \<and> (edu_location (sel ! n) = VStr [] \<longrightarrow> dict_get item ''location'' = Some (VStr []))
         \<and> (edu_date (sel ! n) = VStr [] \<longrightarrow> dict_get item ''date'' = Some (VStr []))
         \<and> (edu_start_date (sel ! n) = VStr [] \<longrightarrow> dict_get item ''start_date'' = Some (VStr []))
         \<and> (edu_end_date (sel ! n) = VStr [] \<longrightarrow> dict_get item ''end_date'' = Some (VStr []))
         \<and> (edu_summary (sel ! n) = VStr [] \<longrightarrow> dict_get item ''summary'' = Some (VStr []))"
    by (intro exI [of _ "education_item pl (sel ! n)"]) (simp add: education_item_get)
qed

lemma project_entries_blank:
  "length (map (\<lambda>e. VDict (project_item pl e)) sel) = length sel
   \<and> (\<forall>n<length sel. \<exists>item.
         (map (\<lambda>e. VDict (project_item pl e)) sel) ! n = VDict item
         \<and> (proj_summary (sel ! n) = VStr [] \<longrightarrow> dict_get item ''summary'' = Some (VStr []))
         \<and> (proj_location (sel ! n) = VStr [] \<longrightarrow> dict_get item ''location'' = Some (VStr []))
         \<and> (proj_date (sel ! n) = VStr [] \<longrightarrow> dict_get item ''date'' = Some (VStr []))
         \<and> (proj_start_date (sel ! n) = VStr [] \<longrightarrow> dict_get item ''start_date'' = Some (VStr []))
         \<and> (proj_end_date (sel ! n) = VStr [] \<longrightarrow> dict_get item ''end_date'' = Some (VStr [])))"
proof (intro conjI allI impI)
  show "length (map (\<lambda>e. VDict (project_item pl e)) sel) = length sel" by simp
next
  fix n assume n: "n < length sel"
  then show "\<exists>item.
         (map (\<lambda>e. VDict (project_item pl e)) sel) ! n = VDict item
         \<and> (proj_summary (sel ! n) = VStr [] \<longrightarrow> dict_get item ''summary'' = Some (VStr []))
         \<and> (proj_location (sel ! n) = VStr [] \<longrightarrow> dict_get item ''location'' = Some (VStr []))
         \<and> (proj_date (sel ! n) = VStr [] \<longrightarrow> dict_get item ''date'' = Some (VStr []))
         \<and> (proj_start_date (sel ! n) = VStr [] \<longrightarrow> dict_get item ''start_date'' = Some (VStr []))
         \<and> (proj_end_date (sel ! n) = VStr [] \<longrightarrow> dict_get item ''end_date'' = Some (VStr []))"
    by (intro exI [of _ "project_item pl (sel ! n)"]) (simp add: project_item_get)
qed

text \<open>
  Claim C9. \<open>set_if_present\<close> stores an empty string like any other string. So every
  optional field of the header and of an entry whose value is the empty string appears
  in the result under its key, with the empty string as value: in the cv dictionary of
  the result for the header, and, for each selected entry of the profile, in the entry
  at the same position of the section Experience, Education or Projects of the result.
\<close>

theorem empty_string_is_written:
  "set_if_present target key (VStr []) = dict_set target key (VStr [])
   \<and> dict_get (set_if_present target key (VStr [])) key = Some (VStr [])
   \<and> (headline (profile_meta p) = VStr [] \<longrightarrow>
        dict_get (cv_of (build_cv_dict p pl)) ''headline'' = Some (VStr []))
   \<and> (location (profile_meta p) = VStr [] \<longrightarrow>
        dict_get (cv_of (build_cv_dict p pl)) ''location'' = Some (VStr []))
   \<and> (email (profile_meta p) = VStr [] \<longrightarrow>
        dict_get (cv_of (build_cv_dict p pl)) ''email'' = Some (VStr []))
   \<and> (phone (profile_meta p) = VStr [] \<longrightarrow>
        dict_get (cv_of (build_cv_dict p pl)) ''phone'' = Some (VStr []))
   \<and> (website (profile_meta p) = VStr [] \<longrightarrow>
        dict_get (cv_of (build_cv_dict p pl)) ''website'' = Some (VStr []))
   \<and> (exp_location exp = VStr [] \<longrightarrow>
        dict_get (experience_item pl exp) ''location'' = Some (VStr []))
   \<and> (exp_date exp = VStr [] \<longrightarrow> dict_get (experience_item pl exp) ''date'' = Some (VStr []))
   \<and> (exp_start_date exp = VStr [] \<longrightarrow>
        dict_get (experience_item pl exp) ''start_date'' = Some (VStr []))
   \<and> (exp_end_date exp = VStr [] \<longrightarrow>
        dict_get (experience_item pl exp) ''end_date'' = Some (VStr []))
   \<and> (exp_summary exp = VStr [] \<longrightarrow>
        dict_get (experience_item pl exp) ''summary'' = Some (VStr []))
   \<and> (degree edu = VStr [] \<longrightarrow> dict_get (education_item pl edu) ''degree'' = Some (VStr []))
   \<and> (edu_location edu = VStr [] \<longrightarrow>
        dict_get (education_item pl edu) ''location'' = Some (VStr []))
   \<and> (edu_date edu = VStr [] \<longrightarrow> dict_get (education_item pl edu) ''date'' = Some (VStr []))
   \<and> (edu_start_date edu = VStr [] \<longrightarrow>
        dict_get (education_item pl edu) ''start_date'' = Some (VStr []))
   \<and> (edu_end_date edu = VStr [] \<longrightarrow>
        dict_get (education_item pl edu) ''end_date'' = Some (VStr []))
   \<and> (edu_summary edu = VStr [] \<longrightarrow>
        dict_get (education_item pl edu) ''summary'' = Some (VStr []))
   \<and> (proj_summary proj = VStr [] \<longrightarrow>
        dict_get (project_item pl proj) ''summary'' = Some (VStr []))
   \<and> (proj_location proj = VStr [] \<longrightarrow>
        dict_get (project_item pl proj) ''location'' = Some (VStr []))
   \<and> (proj_date proj = VStr [] \<longrightarrow> dict_get (project_item pl proj) ''date'' = Some (VStr []))
   \<and> (proj_start_date proj = VStr [] \<longrightarrow>
        dict_get (project_item pl proj) ''start_date'' = Some (VStr []))
   \<and> (proj_end_date proj = VStr [] \<longrightarrow>
        dict_get (project_item pl proj) ''end_date'' = Some (VStr []))
   \<and> (let sel = (if selected_experience_ids pl = [] then experience p
            else filter (\<lambda>e. exp_id e \<in> Some ` set (selected_experience_ids pl)) (experience p))
        in length (section_entries (build_cv_dict p pl) ''Experience'') = length sel
   \<and> (\<forall>n<length sel. \<exists>item.
         (section_entries (build_cv_dict p pl) ''Experience'') ! n = VDict item
         \<and> (exp_location (sel ! n) = VStr [] \<longrightarrow> dict_get item ''location'' = Some (VStr []))
         \<and> (exp_date (sel ! n) = VStr [] \<longrightarrow> dict_get item ''date'' = Some (VStr []))
         \<and> (exp_start_date (sel ! n) = VStr [] \<longrightarrow> dict_get item ''start_date'' = Some (VStr []))
         \<and> (exp_end_date (sel ! n) = VStr [] \<longrightarrow> dict_get item ''end_date'' = Some (VStr []))
         \<and> (exp_summary (sel ! n) = VStr [] \<longrightarrow> dict_get item ''summary'' = Some (VStr []))))
   \<and> (let sel = (if selected_education_ids pl = [] then education p
            else filter (\<lambda>e. edu_id e \<in> Some ` set (selected_education_ids pl)) (education p))
        in length (section_entries (build_cv_dict p pl) ''Education'') = length sel
   \<and> (\<forall>n<length sel. \<exists>item.
         (section_entries (build_cv_dict p pl) ''Education'') ! n = VDict item
         \<and> (degree (sel ! n) = VStr [] \<longrightarrow> dict_get item ''degree'' = Some (VStr []))
         \<and> (edu_location (sel ! n) = VStr [] \<longrightarrow> dict_get item ''location'' = Some (VStr []))
         \<and> (edu_date (sel ! n) = VStr [] \<longrightarrow> dict_get item ''date'' = Some (VStr []))
         \<and> (edu_start_date (sel ! n) = VStr [] \<longrightarrow> dict_get item ''start_date'' = Some (VStr []))
         \<and> (edu_end_date (sel ! n) = VStr [] \<longrightarrow> dict_get item ''end_date'' = Some (VStr []))
         \<and> (edu_summary (sel ! n) = VStr [] \<longrightarrow> dict_get item ''summary'' = Some (VStr []))))
   \<and> (let sel = (if selected_project_ids pl = [] then projects p
            else filter (\<lambda>e. proj_id e \<in> Some ` set (selected_project_ids pl)) (projects p))
        in length (section_entries (build_cv_dict p pl) ''Projects'') = length sel
   \<and> (\<forall>n<length sel. \<exists>item.
         (section_entries (build_cv_dict p pl) ''Projects'') ! n = VDict item
         \<and> (proj_summary (sel ! n) = VStr [] \<longrightarrow> dict_get item ''summary'' = Some (VStr []))
         \<and> (proj_location (sel ! n) = VStr [] \<longrightarrow> dict_get item ''location'' = Some (VStr []))
         \<and> (proj_date (sel ! n) = VStr [] \<longrightarrow> dict_get item ''date'' = Some (VStr []))
         \<and> (proj_start_date (sel ! n) = VStr [] \<longrightarrow> dict_get item ''start_date'' = Some (VStr []))
         \<and> (proj_end_date (sel ! n) = VStr [] \<longrightarrow> dict_get item ''end_date'' = Some (VStr []))))"
proof -
  have old: "set_if_present target key (VStr []) = dict_set target key (VStr [])
   \<and> dict_get (set_if_present target key (VStr [])) key = Some (VStr [])
   \<and> (headline (profile_meta p) = VStr [] \<longrightarrow>
        dict_get (cv_of (build_cv_dict p pl)) ''headline'' = Some (VStr []))
   \<and> (location (profile_meta p) = VStr [] \<longrightarrow>
        dict_get (cv_of (build_cv_dict p pl)) ''location'' = Some (VStr []))
   \<and> (email (profile_meta p) = VStr [] \<longrightarrow>
        dict_get (cv_of (build_cv_dict p pl)) ''email'' = Some (VStr []))
   \<and> (phone (profile_meta p) = VStr [] \<longrightarrow>
        dict_get (cv_of (build_cv_dict p pl)) ''phone'' = Some (VStr []))
   \<and> (website (profile_meta p) = VStr [] \<longrightarrow>
        dict_get (cv_of (build_cv_dict p pl)) ''website'' = Some (VStr []))
   \<and> (exp_location exp = VStr [] \<longrightarrow>
        dict_get (experience_item pl exp) ''location'' = Some (VStr []))
   \<and> (exp_date exp = VStr [] \<longrightarrow> dict_get (experience_item pl exp) ''date'' = Some (VStr []))
   \<and> (exp_start_date exp = VStr [] \<longrightarrow>
        dict_get (experience_item pl exp) ''start_date'' = Some (VStr []))
   \<and> (exp_end_date exp = VStr [] \<longrightarrow>
        dict_get (experience_item pl exp) ''end_date'' = Some (VStr []))
   \<and> (exp_summary exp = VStr [] \<longrightarrow>
        dict_get (experience_item pl exp) ''summary'' = Some (VStr []))
   \<and> (degree edu = VStr [] \<longrightarrow> dict_get (education_item pl edu) ''degree'' = Some (VStr []))
   \<and> (edu_location edu = VStr [] \<longrightarrow>
        dict_get (education_item pl edu) ''location'' = Some (VStr []))
   \<and> (edu_date edu = VStr [] \<longrightarrow> dict_get (education_item pl edu) ''date'' = Some (VStr []))
   \<and> (edu_start_date edu = VStr [] \<longrightarrow>
        dict_get (education_item pl edu) ''start_date'' = Some (VStr []))
   \<and> (edu_end_date edu = VStr [] \<longrightarrow>
        dict_get (education_item pl edu) ''end_date'' = Some (VStr []))
   \<and> (edu_summary edu = VStr [] \<longrightarrow>
        dict_get (education_item pl edu) ''summary'' = Some (VStr []))
   \<and> (proj_summary proj = VStr [] \<longrightarrow>
        dict_get (project_item pl proj) ''summary'' = Some (VStr []))
   \<and> (proj_location proj = VStr [] \<longrightarrow>
        dict_get (project_item pl proj) ''location'' = Some (VStr []))
   \<and> (proj_date proj = VStr [] \<longrightarrow> dict_get (project_item pl proj) ''date'' = Some (VStr []))
   \<and> (proj_start_date proj = VStr [] \<longrightarrow>
        dict_get (project_item pl proj) ''start_date'' = Some (VStr []))
   \<and> (proj_end_date proj = VStr [] \<longrightarrow>
        dict_get (project_item pl proj) ''end_date'' = Some (VStr []))"
  by (simp add: dict_get_dict_set dict_get_cv_of_header header_get experience_item_get
        education_item_get project_item_get)
  have o1: "(let sel = (if selected_experience_ids pl = [] then experience p
            else filter (\<lambda>e. exp_id e \<in> Some ` set (selected_experience_ids pl)) (experience p))
        in length (section_entries (build_cv_dict p pl) ''Experience'') = length sel
   \<and> (\<forall>n<length sel. \<exists>item.
         (section_entries (build_cv_dict p pl) ''Experience'') ! n = VDict item
         \<and> (exp_location (sel ! n) = VStr [] \<longrightarrow> dict_get item ''location'' = Some (VStr []))
         \<and> (exp_date (sel ! n) = VStr [] \<longrightarrow> dict_get item ''date'' = Some (VStr []))
         \<and> (exp_start_date (sel ! n) = VStr [] \<longrightarrow> dict_get item ''start_date'' = Some (VStr []))
         \<and> (exp_end_date (sel ! n) = VStr [] \<longrightarrow> dict_get item ''end_date'' = Some (VStr []))
         \<and> (exp_summary (sel ! n) = VStr [] \<longrightarrow> dict_get item ''summary'' = Some (VStr []))))"
    unfolding Let_def entries_of_sections(1) by (rule experience_entries_blank)
  have o2: "(let sel = (if selected_education_ids pl = [] then education p
            else filter (\<lambda>e. edu_id e \<in> Some ` set (selected_education_ids pl)) (education p))
        in length (section_entries (build_cv_dict p pl) ''Education'') = length sel
   \<and> (\<forall>n<length sel. \<exists>item.
         (section_entries (build_cv_dict p pl) ''Education'') ! n = VDict item
         \<and> (degree (sel ! n) = VStr [] \<longrightarrow> dict_get item ''degree'' = Some (VStr []))
         \<and> (edu_location (sel ! n) = VStr [] \<longrightarrow> dict_get item ''location'' = Some (VStr []))
         \<and> (edu_date (sel ! n) = VStr [] \<longrightarrow> dict_get item ''date'' = Some (VStr []))
         \<and> (edu_start_date (sel ! n) = VStr [] \<longrightarrow> dict_get item ''start_date'' = Some (VStr []))
         \<and> (edu_end_date (sel ! n) = VStr [] \<longrightarrow> dict_get item ''end_date'' = Some (VStr []))
         \<and> (edu_summary (sel ! n) = VStr [] \<longrightarrow> dict_get item ''summary'' = Some (VStr []))))"
    unfolding Let_def entries_of_sections(2) by (rule education_entries_blank)
  have o3: "(let sel = (if selected_project_ids pl = [] then projects p
            else filter (\<lambda>e. proj_id e \<in> Some ` set (selected_project_ids pl)) (projects p))
        in length (section_entries (build_cv_dict p pl) ''Projects'') = length sel
   \<and> (\<forall>n<length sel. \<exists>item.
         (section_entries (build_cv_dict p pl) ''Projects'') ! n = VDict item
         \<and> (proj_summary (sel ! n) = VStr [] \<longrightarrow> dict_get item ''summary'' = Some (VStr []))
         \<and> (proj_location (sel ! n) = VStr [] \<longrightarrow> dict_get item ''location'' = Some (VStr []))
         \<and> (proj_date (sel ! n) = VStr [] \<longrightarrow> dict_get item ''date'' = Some (VStr []))
         \<and> (proj_start_date (sel ! n) = VStr [] \<longrightarrow> dict_get item ''start_date'' = Some (VStr []))
         \<and> (proj_end_date (sel ! n) = VStr [] \<longrightarrow> dict_get item ''end_date'' = Some (VStr []))))"
    unfolding Let_def entries_of_sections(3) by (rule project_entries_blank)
  from old o1 o2 o3 show ?thesis
    by (elim conjE) (intro conjI; assumption)
qed

section \<open>The assembled document\<close>

text \<open>
  Claim C6. The assembled document has the four keys cv, design, locale and settings, in
  this order. Each of design, locale and settings is the override when one is given and
  the default block otherwise; cv is the body's cv value when the body has that key and
  the empty dictionary otherwise, whatever the defaults are. Without overrides the three
  blocks are the defaults.
\<close>

theorem assemble_document_blocks:
  "dict_keys (assemble_rendercv_document dflt cv_dict design locale settings)
     = [''cv'', ''design'', ''locale'', ''settings'']
   \<and> dict_get (assemble_rendercv_document dflt cv_dict design locale settings) ''design''
     = Some (case design of Some m \<Rightarrow> m | None \<Rightarrow> default_design dflt)
   \<and> dict_get (assemble_rendercv_document dflt cv_dict design locale settings) ''locale''
     = Some (case locale of Some m \<Rightarrow> m | None \<Rightarrow> default_locale dflt)
   \<and> dict_get (assemble_rendercv_document dflt cv_dict design locale settings) ''settings''
     = Some (case settings of Some m \<Rightarrow> m | None \<Rightarrow> default_settings dflt)
   \<and> dict_get (assemble_rendercv_document dflt cv_dict design locale settings) ''cv''
     = Some (case dict_get cv_dict ''cv'' of Some cv \<Rightarrow> cv | None \<Rightarrow> [])
   \<and> assemble_rendercv_document dflt cv_dict None None None
     = [(''cv'', (case dict_get cv_dict ''cv'' of Some cv \<Rightarrow> cv | None \<Rightarrow> [])),
        (''design'', default_design dflt), (''locale'', default_locale dflt),
        (''settings'', default_settings dflt)]"
  by (simp add: assemble_rendercv_document_def or_default_def)

section \<open>The theorems at the example inputs\<close>

lemmas example_defs = example_profile_def example_plan_def bare_profile_def blank_profile_def
  override_plan_def example_defaults_def

lemmas item_defs = experience_item_def education_item_def project_item_def
  resolve_highlights_def put_highlights_def

theorem selection_policy_witness:
  "section_entries (build_cv_dict example_profile example_plan) ''Experience'' =
     [VDict [(''company'', VStr ''Acme''), (''position'', VStr ''Engineer''),
             (''location'', VStr ''London''), (''start_date'', VStr ''2020-01''),
             (''end_date'', VStr ''present''), (''summary'', VStr ''''),
             (''highlights'', VList [VStr ''x''])],
      VDict [(''company'', VStr ''Initech''), (''position'', VStr ''Intern''),
             (''date'', VStr ''2019'')]]
   \<and> section_entries (build_cv_dict example_profile example_plan) ''Education'' =
     [VDict [(''institution'', VStr ''MIT''), (''area'', VStr ''CS''), (''degree'', VStr ''BS''),
             (''start_date'', VStr ''2015''), (''end_date'', VStr ''2019''),
             (''highlights'', VList [VStr ''d''])]]
   \<and> section_entries (build_cv_dict example_profile example_plan) ''Projects'' =
     [VDict [(''name'', VStr ''Kernel''), (''date'', VStr ''2021'')]]
   \<and> section_entries (build_cv_dict example_profile example_plan) ''Skills'' =
     [VDict [(''label'', VStr ''Tools''), (''details'', VStr ''Git'')]]"
  using selection_policy [of example_profile example_plan]
  by (simp add: example_defs item_defs)

theorem highlights_override_witness:
  "resolve_highlights (Some ''e1'') [''a'', ''b''] override_plan = [''x'']
   \<and> resolve_highlights None [''a'', ''b''] override_plan = [''a'', ''b'']
   \<and> resolve_highlights (Some '''') [''a'', ''b''] override_plan = [''a'', ''b'']
   \<and> resolve_highlights (Some ''e2'') [''a'', ''b''] override_plan = [''a'', ''b'']
   \<and> dict_get (experience_item override_plan (hd (experience example_profile))) ''highlights''
       = Some (VList [VStr ''x''])
   \<and> filter (\<lambda>x. fst x \<noteq> ''highlights'')
         (experience_item override_plan (hd (experience example_profile)))
       = filter (\<lambda>x. fst x \<noteq> ''highlights'')
           (experience_item example_plan (hd (experience example_profile)))
   \<and> length (section_entries (build_cv_dict example_profile override_plan) ''Experience'') = 3
   \<and> (\<exists>item. section_entries (build_cv_dict example_profile override_plan) ''Experience'' ! 0
         = VDict item
       \<and> dict_get item ''highlights'' = Some (VList [VStr ''x'']))
   \<and> (\<exists>item. section_entries (build_cv_dict example_profile override_plan) ''Experience'' ! 2
         = VDict item
       \<and> dict_get item ''highlights'' = Some (VList [VStr ''c'']))"
proof -
  let ?e = "hd (experience example_profile)"
  let ?u = "hd (education example_profile)"
  let ?p = "hd (projects example_profile)"
  have e: "exp_id ?e = Some ''e1''" "exp_highlights ?e = [''a'', ''b'']"
    by (simp_all add: example_defs)
  have o: "dict_get (bullet_overrides override_plan) ''e1'' = Some [''x'']"
    "\<not> dict_has (bullet_overrides override_plan) ''e2''"
    by (simp_all add: example_defs)
  note t1 = highlights_override [of "Some ''e1''" "''e1''" override_plan "[''x'']" "[''a'', ''b'']"
      ?e ?u ?p example_plan example_profile]
  note t2 = highlights_override [of None "''e1''" override_plan "[''x'']" "[''a'', ''b'']"
      ?e ?u ?p example_plan example_profile]
  note t3 = highlights_override [of "Some ''''" "''e1''" override_plan "[''x'']" "[''a'', ''b'']"
      ?e ?u ?p example_plan example_profile]
  note t4 = highlights_override [of "Some ''e2''" "''e2''" override_plan "[''x'']" "[''a'', ''b'']"
      ?e ?u ?p example_plan example_profile]
  have r1: "resolve_highlights (Some ''e1'') [''a'', ''b''] override_plan = [''x'']"
    using t1 o by simp
  have r2: "resolve_highlights None [''a'', ''b''] override_plan = [''a'', ''b'']"
    using t2 by simp
  have r3: "resolve_highlights (Some '''') [''a'', ''b''] override_plan = [''a'', ''b'']"
    using t3 by simp
  have r4: "resolve_highlights (Some ''e2'') [''a'', ''b''] override_plan = [''a'', ''b'']"
    using t4 o by simp
  have h: "dict_get (experience_item override_plan ?e) ''highlights'' = Some (VList [VStr ''x''])"
    using t1 [THEN conjunct2, THEN conjunct2, THEN conjunct2, THEN conjunct1] r1 e by simp
  have g: "filter (\<lambda>x. fst x \<noteq> ''highlights'') (experience_item override_plan ?e)
       = filter (\<lambda>x. fst x \<noteq> ''highlights'') (experience_item example_plan ?e)"
    by (rule t1 [THEN conjunct2, THEN conjunct2, THEN conjunct2, THEN conjunct2,
          THEN conjunct2, THEN conjunct2, THEN conjunct2, THEN conjunct2, THEN conjunct2,
          THEN conjunct1])
  have s: "(if selected_experience_ids override_plan = [] then experience example_profile
        else filter (\<lambda>e. exp_id e \<in> Some ` set (selected_experience_ids override_plan)) (experience example_profile)) = experience example_profile"
    by (simp add: override_plan_def)
  note out = t1 [THEN conjunct2, THEN conjunct2, THEN conjunct2, THEN conjunct2, THEN conjunct2,
      THEN conjunct2, THEN conjunct2, THEN conjunct2, THEN conjunct2, THEN conjunct2,
      THEN conjunct2, THEN conjunct2, THEN conjunct1,
      unfolded Let_def s]
  have l3: "length (experience example_profile) = 3" by (simp add: example_profile_def)
  have len: "length (section_entries (build_cv_dict example_profile override_plan) ''Experience'') = 3"
    using out [THEN conjunct1] l3 by simp
  have p0: "0 < length (experience example_profile)" and p2: "2 < length (experience example_profile)"
    by (simp_all add: l3)
  have e0: "exp_id (experience example_profile ! 0) = Some ''e1''"
    and e2: "exp_id (experience example_profile ! 2) = None"
      "exp_highlights (experience example_profile ! 2) = [''c'']"
    by (simp_all add: example_profile_def)
  from out [THEN conjunct2, rule_format, OF p0] obtain item0 where
    a0: "section_entries (build_cv_dict example_profile override_plan) ''Experience'' ! 0 = VDict item0"
    and b0: "\<forall>i ov. exp_id (experience example_profile ! 0) = Some i \<and> i \<noteq> []
                \<and> dict_get (bullet_overrides override_plan) i = Some ov \<longrightarrow>
              dict_get item0 ''highlights'' =
                (if ov = [] then None else Some (VList (map VStr ov)))"
    by (elim exE conjE) (rule that)
  from b0 [rule_format, of "''e1''" "[''x'']"] e0 o(1)
  have h0: "dict_get item0 ''highlights'' = Some (VList [VStr ''x''])" by simp
  from a0 h0 have w0: "\<exists>item. section_entries (build_cv_dict example_profile override_plan) ''Experience'' ! 0
         = VDict item
       \<and> dict_get item ''highlights'' = Some (VList [VStr ''x''])"
    by (intro exI [of _ item0] conjI)
  from out [THEN conjunct2, rule_format, OF p2] obtain item2 where
    a2: "section_entries (build_cv_dict example_profile override_plan) ''Experience'' ! 2 = VDict item2"
    and b2: "exp_id (experience example_profile ! 2) = None
              \<or> exp_id (experience example_profile ! 2) = Some []
              \<or> (\<exists>i. exp_id (experience example_profile ! 2) = Some i
                    \<and> \<not> dict_has (bullet_overrides override_plan) i) \<longrightarrow>
              dict_get item2 ''highlights'' =
                (if exp_highlights (experience example_profile ! 2) = [] then None
                 else Some (VList (map VStr (exp_highlights (experience example_profile ! 2)))))"
    by (elim exE conjE) (rule that)
  from b2 e2 have h2: "dict_get item2 ''highlights'' = Some (VList [VStr ''c''])" by simp
  from a2 h2 have w2: "\<exists>item. section_entries (build_cv_dict example_profile override_plan) ''Experience'' ! 2
         = VDict item
       \<and> dict_get item ''highlights'' = Some (VList [VStr ''c''])"
    by (intro exI [of _ item2] conjI)
  from r1 r2 r3 r4 h g len w0 w2 show ?thesis by (intro conjI)
qed


theorem empty_sections_omitted_witness:
  "skills bare_profile = [] \<and> selected_skill_labels example_plan \<noteq> []
   \<and> \<not> dict_has (cv_sections (build_cv_dict bare_profile example_plan)) ''Skills''
   \<and> dict_has (cv_sections (build_cv_dict example_profile example_plan)) ''Skills''
   \<and> section_entries (build_cv_dict example_profile example_plan) ''Skills'' \<noteq> []
   \<and> \<not> dict_has (cv_sections (build_cv_dict example_profile example_plan)) ''Awards''"
proof -
  have s: "skills bare_profile = []" "selected_skill_labels example_plan \<noteq> []"
    by (simp_all add: example_defs)
  have m: "map_skills example_profile example_plan \<noteq> []"
    by (simp add: example_defs map_skills_def)
  note t1 = empty_sections_omitted [of bare_profile example_plan]
  note t2 = empty_sections_omitted [of example_profile example_plan]
  have a: "\<not> dict_has (cv_sections (build_cv_dict bare_profile example_plan)) ''Skills''"
    by (rule t1 [THEN conjunct2, THEN conjunct2, THEN conjunct2, THEN conjunct2, THEN conjunct2,
          THEN conjunct2, THEN mp, OF s(1)])
  have b: "dict_has (cv_sections (build_cv_dict example_profile example_plan)) ''Skills''"
    using t2 [THEN conjunct2, THEN conjunct2, THEN conjunct2, THEN conjunct2, THEN conjunct2,
        THEN conjunct1] m
    by simp
  have c: "section_entries (build_cv_dict example_profile example_plan) ''Skills'' \<noteq> []"
    using t2 [THEN conjunct1, THEN spec, of "''Skills''"] b by simp
  have d: "\<not> dict_has (cv_sections (build_cv_dict example_profile example_plan)) ''Awards''"
    using t2 [THEN conjunct2, THEN conjunct1, THEN spec, of "''Awards''"] by simp
  from s a b c d show ?thesis by (intro conjI)
qed

theorem build_cv_dict_shape_witness:
  "dict_keys (build_cv_dict bare_profile example_plan) = [''cv'']
   \<and> dict_get (cv_of (build_cv_dict bare_profile example_plan)) ''name''
       = Some (VStr ''Ada Lovelace'')
   \<and> map_experience bare_profile example_plan = [] \<and> map_projects bare_profile example_plan = []
   \<and> map_education bare_profile example_plan = [] \<and> map_skills bare_profile example_plan = []
   \<and> \<not> dict_has (cv_of (build_cv_dict bare_profile example_plan)) ''sections''
   \<and> dict_has (cv_of (build_cv_dict example_profile example_plan)) ''sections''
   \<and> cv_sections (build_cv_dict example_profile example_plan) \<noteq> []"
proof -
  have m: "map_experience bare_profile example_plan = []"
    "map_projects bare_profile example_plan = []"
    "map_education bare_profile example_plan = []"
    "map_skills bare_profile example_plan = []"
    by (simp_all add: example_defs map_experience_def map_projects_def map_education_def
        map_skills_def select_items_def)
  note t1 = build_cv_dict_shape [of bare_profile example_plan]
  note t2 = build_cv_dict_shape [of example_profile example_plan]
  have a: "dict_keys (build_cv_dict bare_profile example_plan) = [''cv'']"
    by (rule t1 [THEN conjunct1])
  have b: "dict_get (cv_of (build_cv_dict bare_profile example_plan)) ''name''
       = Some (VStr ''Ada Lovelace'')"
    using t1 [THEN conjunct2, THEN conjunct2, THEN conjunct1] by (simp add: example_defs)
  have c: "\<not> dict_has (cv_of (build_cv_dict bare_profile example_plan)) ''sections''"
    using t1 [THEN conjunct2, THEN conjunct2, THEN conjunct2, THEN conjunct1] m by simp
  have e: "dict_has (cv_of (build_cv_dict example_profile example_plan)) ''sections''"
    by (simp add: cv_of_build build_sections_eq opt_section_def map_skills_def example_defs
        order_sections_def)
  have f: "cv_sections (build_cv_dict example_profile example_plan) \<noteq> []"
    using t2 [THEN conjunct2, THEN conjunct2, THEN conjunct2, THEN conjunct2] e by simp
  from a b m c e f show ?thesis by (intro conjI)
qed

theorem header_mapping_witness:
  "dict_get (cv_of (build_cv_dict example_profile example_plan)) ''name''
     = Some (VStr ''Ada Lovelace'')
   \<and> dict_get (cv_of (build_cv_dict example_profile example_plan)) ''headline''
     = Some (VStr ''Engineer'')
   \<and> dict_get (cv_of (build_cv_dict example_profile example_plan)) ''location'' = None
   \<and> dict_get (cv_of (build_cv_dict example_profile example_plan)) ''email''
     = Some (VStr ''ada@example.org'')
   \<and> dict_get (cv_of (build_cv_dict example_profile example_plan)) ''phone'' = Some (VStr '''')
   \<and> dict_get (cv_of (build_cv_dict example_profile example_plan)) ''website'' = None
   \<and> dict_get (cv_of (build_cv_dict example_profile example_plan)) ''social_networks''
     = Some (VList [VDict [(''network'', VStr ''GitHub''), (''username'', VStr ''ada'')],
                    VDict [(''network'', VStr ''LinkedIn''), (''username'', VStr ''lovelace'')]])
   \<and> dict_get (cv_of (build_cv_dict bare_profile example_plan)) ''social_networks'' = None"
  using header_mapping [of example_profile example_plan] header_mapping [of bare_profile example_plan]
  by (simp add: example_defs)

theorem empty_string_is_written_witness:
  "dict_get (cv_of (build_cv_dict blank_profile override_plan)) ''headline'' = Some (VStr [])
   \<and> dict_get (cv_of (build_cv_dict blank_profile override_plan)) ''location'' = Some (VStr [])
   \<and> dict_get (cv_of (build_cv_dict blank_profile override_plan)) ''email'' = Some (VStr [])
   \<and> dict_get (cv_of (build_cv_dict blank_profile override_plan)) ''phone'' = Some (VStr [])
   \<and> dict_get (cv_of (build_cv_dict blank_profile override_plan)) ''website'' = Some (VStr [])
   \<and> dict_get (experience_item override_plan (hd (experience blank_profile))) ''location''
       = Some (VStr [])
   \<and> dict_get (experience_item override_plan (hd (experience blank_profile))) ''summary''
       = Some (VStr [])
   \<and> dict_get (education_item override_plan (hd (education blank_profile))) ''degree''
       = Some (VStr [])
   \<and> dict_get (project_item override_plan (hd (projects blank_profile))) ''end_date''
       = Some (VStr [])
   \<and> (\<exists>item. section_entries (build_cv_dict blank_profile override_plan) ''Experience'' ! 0
         = VDict item
       \<and> dict_get item ''location'' = Some (VStr []) \<and> dict_get item ''summary'' = Some (VStr []))
   \<and> (\<exists>item. section_entries (build_cv_dict blank_profile override_plan) ''Education'' ! 0
         = VDict item
       \<and> dict_get item ''degree'' = Some (VStr []))
   \<and> (\<exists>item. section_entries (build_cv_dict blank_profile override_plan) ''Projects'' ! 0
         = VDict item
       \<and> dict_get item ''end_date'' = Some (VStr []))"
proof -
  note t = empty_string_is_written [of "[]" "''k''" blank_profile override_plan
      "hd (experience blank_profile)" "hd (education blank_profile)" "hd (projects blank_profile)"]
  have m: "headline (profile_meta blank_profile) = VStr []"
    "location (profile_meta blank_profile) = VStr []"
    "email (profile_meta blank_profile) = VStr []"
    "phone (profile_meta blank_profile) = VStr []"
    "website (profile_meta blank_profile) = VStr []"
    by (simp_all add: example_defs)
  have e: "exp_location (hd (experience blank_profile)) = VStr []"
    "exp_date (hd (experience blank_profile)) = VStr []"
    "exp_start_date (hd (experience blank_profile)) = VStr []"
    "exp_end_date (hd (experience blank_profile)) = VStr []"
    "exp_summary (hd (experience blank_profile)) = VStr []"
    by (simp_all add: example_defs)
  have u: "degree (hd (education blank_profile)) = VStr []"
    "edu_location (hd (education blank_profile)) = VStr []"
    "edu_date (hd (education blank_profile)) = VStr []"
    "edu_start_date (hd (education blank_profile)) = VStr []"
    "edu_end_date (hd (education blank_profile)) = VStr []"
    "edu_summary (hd (education blank_profile)) = VStr []"
    by (simp_all add: example_defs)
  have p: "proj_summary (hd (projects blank_profile)) = VStr []"
    "proj_location (hd (projects blank_profile)) = VStr []"
    "proj_date (hd (projects blank_profile)) = VStr []"
    "proj_start_date (hd (projects blank_profile)) = VStr []"
    "proj_end_date (hd (projects blank_profile)) = VStr []"
    by (simp_all add: example_defs)
  have sx: "(if selected_experience_ids override_plan = [] then experience blank_profile
        else filter (\<lambda>e. exp_id e \<in> Some ` set (selected_experience_ids override_plan)) (experience blank_profile)) = experience blank_profile"
    by (simp add: override_plan_def)
  note outx = t [THEN conjunct2, THEN conjunct2, THEN conjunct2, THEN conjunct2, THEN conjunct2,
      THEN conjunct2, THEN conjunct2, THEN conjunct2, THEN conjunct2, THEN conjunct2,
      THEN conjunct2, THEN conjunct2, THEN conjunct2, THEN conjunct2, THEN conjunct2,
      THEN conjunct2, THEN conjunct2, THEN conjunct2, THEN conjunct2, THEN conjunct2,
      THEN conjunct2, THEN conjunct2, THEN conjunct2, THEN conjunct1,
      unfolded Let_def sx]
  have px: "0 < length (experience blank_profile)" by (simp add: blank_profile_def)
  from outx [THEN conjunct2, rule_format, OF px] obtain itemx where
    ax: "section_entries (build_cv_dict blank_profile override_plan) ''Experience'' ! 0 = VDict itemx"
    and bx0: "exp_location (experience blank_profile ! 0) = VStr [] \<longrightarrow>
        dict_get itemx ''location'' = Some (VStr [])"
    and bx1: "exp_summary (experience blank_profile ! 0) = VStr [] \<longrightarrow>
        dict_get itemx ''summary'' = Some (VStr [])"
    by (elim exE conjE) (rule that)
  have wx: "\<exists>item. section_entries (build_cv_dict blank_profile override_plan) ''Experience'' ! 0
         = VDict item
       \<and> dict_get item ''location'' = Some (VStr []) \<and> dict_get item ''summary'' = Some (VStr [])"
    using ax bx0 bx1
    by (intro exI [of _ itemx]) (simp add: blank_profile_def)
  have su: "(if selected_education_ids override_plan = [] then education blank_profile
        else filter (\<lambda>e. edu_id e \<in> Some ` set (selected_education_ids override_plan)) (education blank_profile)) = education blank_profile"
    by (simp add: override_plan_def)
  note outu = t [THEN conjunct2, THEN conjunct2, THEN conjunct2, THEN conjunct2, THEN conjunct2,
      THEN conjunct2, THEN conjunct2, THEN conjunct2, THEN conjunct2, THEN conjunct2,
      THEN conjunct2, THEN conjunct2, THEN conjunct2, THEN conjunct2, THEN conjunct2,
      THEN conjunct2, THEN conjunct2, THEN conjunct2, THEN conjunct2, THEN conjunct2,
      THEN conjunct2, THEN conjunct2, THEN conjunct2, THEN conjunct2, THEN conjunct1,
      unfolded Let_def su]
  have pu: "0 < length (education blank_profile)" by (simp add: blank_profile_def)
  from outu [THEN conjunct2, rule_format, OF pu] obtain itemu where
    au: "section_entries (build_cv_dict blank_profile override_plan) ''Education'' ! 0 = VDict itemu"
    and bu0: "degree (education blank_profile ! 0) = VStr [] \<longrightarrow>
        dict_get itemu ''degree'' = Some (VStr [])"
    by (elim exE conjE) (rule that)
  have wu: "\<exists>item. section_entries (build_cv_dict blank_profile override_plan) ''Education'' ! 0
         = VDict item
       \<and> dict_get item ''degree'' = Some (VStr [])"
    using au bu0
    by (intro exI [of _ itemu]) (simp add: blank_profile_def)
  have sj: "(if selected_project_ids override_plan = [] then projects blank_profile
        else filter (\<lambda>e. proj_id e \<in> Some ` set (selected_project_ids override_plan)) (projects blank_profile)) = projects blank_profile"
    by (simp add: override_plan_def)
  note outj = t [THEN conjunct2, THEN conjunct2, THEN conjunct2, THEN conjunct2, THEN conjunct2,
      THEN conjunct2, THEN conjunct2, THEN conjunct2, THEN conjunct2, THEN conjunct2,
      THEN conjunct2, THEN conjunct2, THEN conjunct2, THEN conjunct2, THEN conjunct2,
      THEN conjunct2, THEN conjunct2, THEN conjunct2, THEN conjunct2, THEN conjunct2,
      THEN conjunct2, THEN conjunct2, THEN conjunct2, THEN conjunct2, THEN conjunct2,
      unfolded Let_def sj]
  have pj: "0 < length (projects blank_profile)" by (simp add: blank_profile_def)
  from outj [THEN conjunct2, rule_format, OF pj] obtain itemj where
    aj: "section_entries (build_cv_dict blank_profile override_plan) ''Projects'' ! 0 = VDict itemj"
    and bj0: "proj_end_date (projects blank_profile ! 0) = VStr [] \<longrightarrow>
        dict_get itemj ''end_date'' = Some (VStr [])"
    by (elim exE conjE) (rule that)
  have wj: "\<exists>item. section_entries (build_cv_dict blank_profile override_plan) ''Projects'' ! 0
         = VDict item
       \<and> dict_get item ''end_date'' = Some (VStr [])"
    using aj bj0
    by (intro exI [of _ itemj]) (simp add: blank_profile_def)
  from t have "dict_get (cv_of (build_cv_dict blank_profile override_plan)) ''headline'' = Some (VStr [])
   \<and> dict_get (cv_of (build_cv_dict blank_profile override_plan)) ''location'' = Some (VStr [])
   \<and> dict_get (cv_of (build_cv_dict blank_profile override_plan)) ''email'' = Some (VStr [])
   \<and> dict_get (cv_of (build_cv_dict blank_profile override_plan)) ''phone'' = Some (VStr [])
   \<and> dict_get (cv_of (build_cv_dict blank_profile override_plan)) ''website'' = Some (VStr [])
   \<and> dict_get (experience_item override_plan (hd (experience blank_profile))) ''location''
       = Some (VStr [])
   \<and> dict_get (experience_item override_plan (hd (experience blank_profile))) ''summary''
       = Some (VStr [])
   \<and> dict_get (education_item override_plan (hd (education blank_profile))) ''degree''
       = Some (VStr [])
   \<and> dict_get (project_item override_plan (hd (projects blank_profile))) ''end_date''
       = Some (VStr [])"
    by (simp only: m e u p simp_thms)
  with wx wu wj show ?thesis by (simp only: simp_thms)
qed

theorem assemble_document_blocks_witness:
  "assemble_rendercv_document example_defaults
       [(''cv'', [(''name'', VStr ''Ada Lovelace'')])] None None None
     = [(''cv'', [(''name'', VStr ''Ada Lovelace'')]),
        (''design'', [(''theme'', VStr ''classic'')]),
        (''locale'', [(''language'', VStr ''english'')]),
        (''settings'', [(''bold_keywords'', VList [])])]
   \<and> dict_get (assemble_rendercv_document example_defaults []
         (Some [(''theme'', VStr ''modern'')]) None (Some [])) ''design''
     = Some [(''theme'', VStr ''modern'')]
   \<and> dict_get (assemble_rendercv_document example_defaults []
         (Some [(''theme'', VStr ''modern'')]) None (Some [])) ''settings'' = Some []
   \<and> dict_get (assemble_rendercv_document example_defaults []
         (Some [(''theme'', VStr ''modern'')]) None (Some [])) ''cv'' = Some []"
  using assemble_document_blocks [of example_defaults "[(''cv'', [(''name'', VStr ''Ada Lovelace'')])]"
      None None None]
    assemble_document_blocks [of example_defaults "[]" "Some [(''theme'', VStr ''modern'')]" None
      "Some []"]
  by (simp add: example_defs)

section \<open>Runs keep the objects that were there\<close>

lemma keepsI:
  assumes "\<And>h r h'. n \<le> length h \<Longrightarrow> m h = (r, h') \<Longrightarrow>
    length h \<le> length h' \<and> take n h' = take n h \<and> (\<forall>x. r = Inr x \<longrightarrow> Q x)"
  shows "keeps n m Q"
  unfolding keeps_def
proof (intro allI impI)
  fix h :: heap
  assume n: "n \<le> length h"
  obtain r h' where run: "m h = (r, h')" by (cases "m h")
  from assms [OF n run] show "case m h of (r, h') \<Rightarrow>
           length h \<le> length h' \<and> take n h' = take n h
           \<and> (case r of Inl e \<Rightarrow> True | Inr x \<Rightarrow> Q x)"
    by (simp add: run split: sum.splits)
qed

lemma keepsD:
  assumes "keeps n m Q" and "n \<le> length h" and "m h = (r, h')"
  shows "length h \<le> length h'" and "take n h' = take n h" and "r = Inr x \<Longrightarrow> Q x"
  using assms by (auto simp: keeps_def split: sum.splits)

lemma keeps_weaken: "keeps n m P \<Longrightarrow> (\<And>x. P x \<Longrightarrow> Q x) \<Longrightarrow> keeps n m Q"
  by (auto simp: keeps_def split: prod.splits sum.splits)

lemma keeps_ret: "Q x \<Longrightarrow> keeps n (ret x) Q"
  by (simp add: keeps_def ret_def)

lemma keeps_raise: "keeps n (raise e) Q"
  by (simp add: keeps_def raise_def)

lemma keeps_bnd:
  assumes m: "keeps n m P" and f: "\<And>x. P x \<Longrightarrow> keeps n (f x) Q"
  shows "keeps n (bnd m f) Q"
proof (rule keepsI)
  fix h r h'
  assume n: "n \<le> length h" and run: "bnd m f h = (r, h')"
  obtain r1 h1 where m1: "m h = (r1, h1)" by (cases "m h")
  note k1 = keepsD [OF m n m1]
  show "length h \<le> length h' \<and> take n h' = take n h \<and> (\<forall>x. r = Inr x \<longrightarrow> Q x)"
  proof (cases r1)
    case (Inl e)
    with run m1 have "r = Inl e" "h' = h1" by (simp_all add: bnd_def)
    with k1 show ?thesis by simp
  next
    case (Inr y)
    with run m1 have f1: "f y h1 = (r, h')" by (simp add: bnd_def)
    from k1(3) [OF Inr] have "keeps n (f y) Q" by (rule f)
    moreover from n k1(1) have "n \<le> length h1" by simp
    ultimately have "length h1 \<le> length h'" "take n h' = take n h1" "\<forall>x. r = Inr x \<longrightarrow> Q x"
      using f1 by (auto dest: keepsD)
    with k1 show ?thesis by simp
  qed
qed

lemma keeps_if:
  "(b \<Longrightarrow> keeps n m Q) \<Longrightarrow> (\<not> b \<Longrightarrow> keeps n m' Q) \<Longrightarrow> keeps n (if b then m else m') Q"
  by simp

lemma keeps_for_each:
  assumes "\<And>x. x \<in> set xs \<Longrightarrow> keeps n (body x) (\<lambda>_. True)"
  shows "keeps n (for_each body xs) (\<lambda>_. True)"
  using assms
proof (induction xs)
  case Nil
  then show ?case by (simp add: keeps_ret)
next
  case (Cons x xs)
  show ?case
    by (simp, rule keeps_bnd [where P = "\<lambda>_. True"]) (simp_all add: Cons)
qed

lemma keeps_map_run:
  assumes "\<And>x. x \<in> set xs \<Longrightarrow> keeps n (f x) (\<lambda>_. True)"
  shows "keeps n (map_run f xs) (\<lambda>_. True)"
  using assms
proof (induction xs)
  case Nil
  then show ?case by (simp add: keeps_ret)
next
  case (Cons x xs)
  show ?case
    apply simp
    apply (rule keeps_bnd [where P = "\<lambda>_. True"])
     apply (simp add: Cons)
    apply (rule keeps_bnd [where P = "\<lambda>_. True"])
     apply (simp add: Cons)
    apply (simp add: keeps_ret)
    done
qed

lemma keeps_new_obj: "keeps n (new_obj obj) (local_ref n)"
  by (simp add: keeps_def new_obj_def local_ref_def)

lemma keeps_read_obj: "keeps n (read_obj v) (\<lambda>_. True)"
  by (simp add: keeps_def read_obj_def split: hval.splits)

lemma reads_keeps:
  assumes "reads m"
  shows "keeps n m (\<lambda>_. True)"
proof (rule keepsI)
  fix h r h'
  assume "m h = (r, h')"
  with assms [unfolded reads_def, rule_format, of h] have "h' = h" by simp
  then show "length h \<le> length h' \<and> take n h' = take n h \<and> (\<forall>x. r = Inr x \<longrightarrow> True)"
    by simp
qed

lemma reads_ret [simp]: "reads (ret x)"
  by (simp add: reads_def ret_def)

lemma reads_raise [simp]: "reads (raise e)"
  by (simp add: reads_def raise_def)

lemma reads_bnd: "reads m \<Longrightarrow> (\<And>x. reads (f x)) \<Longrightarrow> reads (bnd m f)"
  unfolding reads_def bnd_def
proof
  fix h
  assume m: "\<forall>h. snd (m h) = h" and f: "\<And>x. \<forall>h. snd (f x h) = h"
  obtain r h' where r: "m h = (r, h')" by (cases "m h")
  with m [rule_format, of h] have "h' = h" by simp
  with r f show "snd (case m h of (Inl e, h') \<Rightarrow> (Inl e, h') | (Inr x, h') \<Rightarrow> f x h') = h"
    by (cases r) simp_all
qed

lemma reads_read_obj [simp]: "reads (read_obj v)"
  by (simp add: reads_def read_obj_def split: hval.splits)

lemma reads_for_each: "(\<And>x. reads (body x)) \<Longrightarrow> reads (for_each body xs)"
  by (induction xs) (simp_all add: reads_bnd)

lemma reads_hashable [simp]: "reads (hashable v)"
  unfolding hashable_def
  by (cases v) (auto intro!: reads_bnd split: hobj.splits)

lemma reads_get_attr [simp]: "reads (get_attr obj attr)"
  unfolding get_attr_def
  by (cases obj) (auto intro!: reads_bnd split: hobj.splits option.splits)

lemma reads_list_items [simp]: "reads (list_items l)"
  unfolding list_items_def
  by (cases l) (auto intro!: reads_bnd split: hobj.splits)

lemma reads_dict_items [simp]: "reads (dict_items d)"
  unfolding dict_items_def
  by (cases d) (auto intro!: reads_bnd split: hobj.splits)

lemma reads_to_set [simp]: "reads (to_set l)"
  unfolding to_set_def by (intro reads_bnd reads_for_each) simp_all

lemma reads_is_member [simp]: "reads (is_member v s)"
  unfolding is_member_def by (intro reads_bnd) simp_all

lemma reads_any_eq: "reads (\<lambda>h. case f h of None \<Rightarrow> (Inl e, h) | Some b \<Rightarrow> (Inr b, h))"
  by (simp add: reads_def split: option.splits)

lemma reads_contains [simp]: "reads (contains c x)"
  unfolding contains_def
  by (cases c)
    (auto intro!: reads_bnd reads_any_eq split: hobj.splits hval.splits)

lemma reads_subscript [simp]: "reads (subscript c x)"
  unfolding subscript_def
  by (cases c) (auto intro!: reads_bnd split: hobj.splits hval.splits option.splits)

lemma keeps_is_member: "keeps n (is_member v s) (\<lambda>_. True)"
  by (rule reads_keeps) simp

lemma keeps_get_attr: "keeps n (get_attr obj attr) (\<lambda>_. True)"
  by (rule reads_keeps) simp

lemma keeps_list_items: "keeps n (list_items l) (\<lambda>_. True)"
  by (rule reads_keeps) simp

lemma keeps_dict_items: "keeps n (dict_items l) (\<lambda>_. True)"
  by (rule reads_keeps) simp

lemma keeps_to_set: "keeps n (to_set l) (\<lambda>_. True)"
  by (rule reads_keeps) simp

lemma keeps_contains: "keeps n (contains c x) (\<lambda>_. True)"
  by (rule reads_keeps) simp

lemma keeps_subscript: "keeps n (subscript c x) (\<lambda>_. True)"
  by (rule reads_keeps) simp

lemma keeps_truthy: "keeps n (truthy v) (\<lambda>_. True)"
proof (cases v)
  case (HRef a)
  show ?thesis
    unfolding truthy_def HRef hval.case
    by (rule keeps_bnd [OF keeps_read_obj]) (simp add: keeps_ret split: hobj.splits)
qed (simp_all add: truthy_def keeps_ret)

lemma take_update_above: "n \<le> a \<Longrightarrow> take n (h[a := x]) = take n h"
  by simp

lemma keeps_setitem: "local_ref n d \<Longrightarrow> keeps n (setitem d k v) (\<lambda>_. True)"
  by (auto simp: keeps_def setitem_def local_ref_def split: hobj.splits if_splits)

lemma keeps_append: "local_ref n l \<Longrightarrow> keeps n (append l v) (\<lambda>_. True)"
  by (auto simp: keeps_def append_def local_ref_def split: hobj.splits if_splits)

lemma keeps_pop: "local_ref n d \<Longrightarrow> keeps n (pop d k) (\<lambda>_. True)"
  by (auto simp: keeps_def pop_def local_ref_def split: hobj.splits option.splits if_splits)

lemma keeps_copy_list: "keeps n (copy_list l) (local_ref n)"
  unfolding copy_list_def
  by (rule keeps_bnd [OF keeps_list_items]) (rule keeps_new_obj)

lemma keeps_set_if_present:
  assumes "local_ref n target"
  shows "keeps n (st_set_if_present target key v) (\<lambda>_. True)"
proof (cases v)
  case (HRef a)
  show ?thesis
    unfolding st_set_if_present_def HRef hval.case
    by (rule keeps_bnd [OF keeps_read_obj])
      (simp add: keeps_ret keeps_setitem assms split: hobj.splits list.splits)
qed (simp_all add: st_set_if_present_def keeps_ret keeps_setitem assms)

lemma keeps_set_from_attr:
  "local_ref n target \<Longrightarrow> keeps n (set_from_attr target key obj attr) (\<lambda>_. True)"
  unfolding set_from_attr_def
  by (rule keeps_bnd [OF keeps_get_attr]) (rule keeps_set_if_present)

lemma keeps_case_option:
  "(x = None \<Longrightarrow> keeps n m Q) \<Longrightarrow> (\<And>y. x = Some y \<Longrightarrow> keeps n (f y) Q)
   \<Longrightarrow> keeps n (case x of None \<Rightarrow> m | Some y \<Rightarrow> f y) Q"
  by (cases x) simp_all

lemma keeps_case_hval:
  "keeps n a Q \<Longrightarrow> (\<And>s. keeps n (b s) Q) \<Longrightarrow> (\<And>x. keeps n (c x) Q) \<Longrightarrow>
     keeps n (case v of HNone \<Rightarrow> a | HStr s \<Rightarrow> b s | HRef x \<Rightarrow> c x) Q"
  by (cases v) simp_all

lemma keeps_unit: "keeps n m (\<lambda>_. True) \<Longrightarrow> keeps n m (\<lambda>x. x = ())"
  by (rule keeps_weaken) simp_all

lemma keeps_copy_list_any: "keeps n (copy_list l) (\<lambda>_. True)"
  by (rule keeps_weaken [OF keeps_copy_list]) simp

lemmas keeps_ends = keeps_setitem keeps_append keeps_ret keeps_copy_list_any keeps_set_if_present
  keeps_set_from_attr

lemmas keeps_steps =
  keeps_bnd [OF keeps_get_attr] keeps_bnd [OF keeps_list_items] keeps_bnd [OF keeps_dict_items]
  keeps_bnd [OF keeps_truthy] keeps_bnd [OF keeps_contains] keeps_bnd [OF keeps_subscript]
  keeps_bnd [OF keeps_is_member]
  keeps_bnd [OF keeps_to_set] keeps_bnd [OF keeps_new_obj] keeps_bnd [OF keeps_copy_list]
  keeps_bnd [OF keeps_read_obj]
  keeps_bnd [OF keeps_for_each] keeps_bnd [OF keeps_setitem] keeps_bnd [OF keeps_append]
  keeps_bnd [OF keeps_pop] keeps_bnd [OF keeps_set_from_attr] keeps_bnd [OF keeps_set_if_present]
  keeps_bnd [OF keeps_if]
  keeps_if keeps_case_option keeps_setitem keeps_append keeps_set_from_attr keeps_set_if_present
  keeps_copy_list keeps_new_obj

lemma keeps_select_items: "keeps n (st_select_items items ids) (local_ref n)"
  unfolding st_select_items_def
  by (intro keeps_steps keeps_ret) (auto intro!: keeps_ends)?

lemma keeps_resolve_highlights: "keeps n (st_resolve_highlights i hs pl) (local_ref n)"
  unfolding st_resolve_highlights_def
  by (intro keeps_steps keeps_ret) (auto intro!: keeps_ends)?

lemma keeps_finish_item:
  "local_ref n mapped \<Longrightarrow> local_ref n item \<Longrightarrow>
     keeps n (finish_item mapped item entry pl) (\<lambda>_. True)"
  unfolding finish_item_def
  by (intro keeps_steps keeps_ret keeps_bnd [OF keeps_resolve_highlights]) (auto intro!: keeps_ends)?

lemma keeps_map_experience: "keeps n (st_map_experience p pl) (local_ref n)"
  unfolding st_map_experience_def
  by (intro keeps_steps keeps_ret keeps_bnd [OF keeps_select_items] keeps_finish_item) (auto intro!: keeps_ends)?

lemma keeps_map_education: "keeps n (st_map_education p pl) (local_ref n)"
  unfolding st_map_education_def
  by (intro keeps_steps keeps_ret keeps_bnd [OF keeps_select_items] keeps_finish_item) (auto intro!: keeps_ends)?

lemma keeps_map_projects: "keeps n (st_map_projects p pl) (local_ref n)"
  unfolding st_map_projects_def
  by (intro keeps_steps keeps_ret keeps_bnd [OF keeps_select_items] keeps_finish_item) (auto intro!: keeps_ends)?

lemma keeps_map_skills: "keeps n (st_map_skills p pl) (local_ref n)"
  unfolding st_map_skills_def
  by (intro keeps_steps keeps_ret) (auto intro!: keeps_ends)

lemma keeps_apply_header:
  "local_ref n cv \<Longrightarrow> keeps n (st_apply_header cv p) (\<lambda>_. True)"
  unfolding st_apply_header_def
  by (intro keeps_steps keeps_ret) (auto intro!: keeps_ends)?

lemma keeps_add_section:
  "local_ref n sections \<Longrightarrow> keeps n (st_add_section sections title entries) (\<lambda>_. True)"
  unfolding st_add_section_def
  by (intro keeps_steps keeps_ret) (auto intro!: keeps_ends)?

lemma keeps_order_sections:
  "local_ref n sections \<Longrightarrow> keeps n (st_order_sections sections order) (local_ref n)"
  unfolding st_order_sections_def
  by (intro keeps_steps keeps_ret keeps_case_hval keeps_raise)
    (auto intro!: keeps_ends split: prod.splits)?

lemma keeps_build_cv_dict: "keeps n (st_build_cv_dict p pl) (local_ref n)"
  unfolding st_build_cv_dict_def
  by (intro keeps_steps keeps_bnd [OF keeps_apply_header] keeps_bnd [OF keeps_add_section]
      keeps_bnd [OF keeps_map_experience] keeps_bnd [OF keeps_map_projects]
      keeps_bnd [OF keeps_map_education] keeps_bnd [OF keeps_map_skills]
      keeps_bnd [OF keeps_order_sections]) (auto intro!: keeps_ends)?

end
